theory Spec2Isabelle
  imports Complex_Main
begin

section \<open>Tensors, errors and collectives\<close>

text \<open>
  The source is \<^verbatim>\<open>src/patchvae/models/normalization.py\<close>. A torch tensor is modelled by
  its shape and its elements, indexed as the source indexes them; element values are real
  numbers (exact arithmetic, no rounding). A 4-D tensor has the axes
  \<^verbatim>\<open>[batch, channel, height, width]\<close>, a 5-D tensor the axes
  \<^verbatim>\<open>[batch, group, channel-in-group, height, width]\<close>, and a \<open>stat\<close> is the
  \<^verbatim>\<open>[batch, num_groups]\<close> array of partial sums and moments (the same data as its
  \<^verbatim>\<open>[batch, num_groups, 1, 1, 1]\<close> form).
\<close>

record tensor4 =
  dimB :: nat
  dimC :: nat
  dimH :: nat
  dimW :: nat
  elt :: "nat \<Rightarrow> nat \<Rightarrow> nat \<Rightarrow> nat \<Rightarrow> real"

record tensor5 =
  d5B :: nat
  d5G :: nat
  d5K :: nat
  d5H :: nat
  d5W :: nat
  elt5 :: "nat \<Rightarrow> nat \<Rightarrow> nat \<Rightarrow> nat \<Rightarrow> nat \<Rightarrow> real"

record stat =
  sB :: nat
  sG :: nat
  sval :: "nat \<Rightarrow> nat \<Rightarrow> real"

text \<open>
  Every exception the modelled code can raise is a value:
  \<^item> \<open>ZeroDivisionError\<close>: Python's \<^verbatim>\<open>//\<close> or \<^verbatim>\<open>%\<close> by zero;
  \<^item> \<open>NotDivisible\<close>: the \<^verbatim>\<open>ValueError('num_channels must be divisible by num_groups')\<close>
    of \<^verbatim>\<open>nn.GroupNorm.__init__\<close>, and the matching check of \<^verbatim>\<open>F.group_norm\<close>;
  \<^item> \<open>ViewError\<close>: the \<^verbatim>\<open>RuntimeError\<close> of \<^verbatim>\<open>Tensor.view\<close> on a shape that does not fit;
  \<^item> \<open>NotExpandable\<close>: the \<^verbatim>\<open>RuntimeError\<close> of \<^verbatim>\<open>Tensor.sum_to_size\<close> when the size
    is not broadcastable to the tensor's size;
  \<^item> \<open>NotScalar\<close>: the \<^verbatim>\<open>ValueError\<close> of \<^verbatim>\<open>torch.tensor\<close> on a list of tensors that
    do not hold exactly one element each;
  \<^item> \<open>BroadcastError\<close>: the \<^verbatim>\<open>RuntimeError\<close> of an elementwise operation on shapes that
    do not broadcast;
  \<^item> \<open>NoneTypeError\<close>: the \<^verbatim>\<open>TypeError\<close> of subscripting \<^verbatim>\<open>None\<close>;
  \<^item> \<open>MatmulError\<close>: the \<^verbatim>\<open>RuntimeError\<close> of \<^verbatim>\<open>nn.Linear\<close> on an input whose last axis
    is not \<^verbatim>\<open>in_features\<close>;
  \<^item> \<open>UnpackError\<close>: the \<^verbatim>\<open>ValueError\<close> of unpacking one chunk into two names;
  \<^item> \<open>CollectiveError\<close>: an \<^verbatim>\<open>all_gather\<close> whose ranks disagree on the shape.
\<close>

datatype error =
  ZeroDivisionError
  | NotDivisible
  | ViewError
  | NotExpandable
  | NotScalar
  | BroadcastError
  | NoneTypeError
  | MatmulError
  | UnpackError
  | CollectiveError

text \<open>
  The collective calls a forward posts, named after what is gathered. A run of all
  workers in lock-step returns the calls every worker has posted, in order, and either
  the error that stopped the group or the result.
\<close>

datatype collective = Gather_height | Gather_partial_sum | Gather_partial_var

type_synonym 'a run = "collective list \<times> (error + 'a)"

definition local_step :: "error + 'a \<Rightarrow> 'a run" where
  "local_step r = ([], r)"

definition post :: "collective \<Rightarrow> error + 'a \<Rightarrow> 'a run" where
  "post c r = ([c], r)"

definition bind_run :: "'a run \<Rightarrow> ('a \<Rightarrow> 'b run) \<Rightarrow> 'b run" where
  "bind_run r f =
     (case r of
        (tr, Inl e) \<Rightarrow> (tr, Inl e)
      | (tr, Inr a) \<Rightarrow> (case f a of (tr', res) \<Rightarrow> (tr @ tr', res)))"

text \<open>The workers' local steps, in rank order; the first failing rank fails the group.\<close>

fun all_ranks :: "(error + 'a) list \<Rightarrow> error + 'a list" where
  "all_ranks [] = Inr []"
| "all_ranks (r # rs) =
     (case r of
        Inl e \<Rightarrow> Inl e
      | Inr a \<Rightarrow> (case all_ranks rs of Inl e \<Rightarrow> Inl e | Inr as \<Rightarrow> Inr (a # as)))"

text \<open>
  \<^verbatim>\<open>dist.all_gather(out_list, value)\<close>: every rank contributes one value and receives
  the list of all contributions in rank order. The receive buffers of the \<open>stat\<close>
  exchanges are allocated as \<^verbatim>\<open>[x.shape[0], num_groups]\<close> on every rank, so the ranks
  must agree on that shape.
\<close>

definition all_gather :: "'a list \<Rightarrow> 'a list list" where
  "all_gather contribs = map (\<lambda>_. contribs) contribs"

definition same_shape :: "stat \<Rightarrow> stat \<Rightarrow> bool" where
  "same_shape p q = (sB p = sB q \<and> sG p = sG q)"

definition all_gather_stat :: "stat list \<Rightarrow> error + stat list list" where
  "all_gather_stat contribs =
     (if list_all (\<lambda>p. list_all (same_shape p) contribs) contribs
      then Inr (all_gather contribs) else Inl CollectiveError)"

section \<open>Tensor operations used by the forward passes\<close>

text \<open>
  \<^verbatim>\<open>x.view(x.shape[0], num_groups, -1, x.shape[-2], x.shape[-1])\<close> on a contiguous 4-D
  tensor: the \<^verbatim>\<open>-1\<close> is inferred from the element count; \<^verbatim>\<open>view\<close> raises when the
  known sizes multiply to zero or do not divide the element count. Channel \<open>c\<close> becomes
  position \<open>(c div K, c mod K)\<close>.
\<close>

definition view5 :: "tensor4 \<Rightarrow> nat \<Rightarrow> error + tensor5" where
  "view5 x G =
     (let known = dimB x * G * dimH x * dimW x;
          numel = dimB x * dimC x * dimH x * dimW x
      in if known = 0 \<or> numel mod known \<noteq> 0 then Inl ViewError
         else let K = numel div known
              in Inr \<lparr>d5B = dimB x, d5G = G, d5K = K, d5H = dimH x, d5W = dimW x,
                      elt5 = (\<lambda>b g k h w. elt x b (g * K + k) h w)\<rparr>)"

text \<open>\<^verbatim>\<open>x.view(x.shape[0], -1, x.shape[-2], x.shape[-1])\<close> back from five to four axes.\<close>

definition view4 :: "tensor5 \<Rightarrow> error + tensor4" where
  "view4 y =
     (let known = d5B y * d5H y * d5W y;
          numel = d5B y * d5G y * d5K y * d5H y * d5W y
      in if known = 0 \<or> numel mod known \<noteq> 0 then Inl ViewError
         else Inr \<lparr>dimB = d5B y, dimC = numel div known, dimH = d5H y, dimW = d5W y,
                   elt = (\<lambda>b c h w. elt5 y b (c div d5K y) (c mod d5K y) h w)\<rparr>)"

text \<open>
  \<^verbatim>\<open>x.sum_to_size(x.shape[0], num_groups, 1, 1, 1)\<close> on the 5-D view: the last three axes
  are summed away.
\<close>

definition sum_to_size5 :: "tensor5 \<Rightarrow> stat" where
  "sum_to_size5 y =
     \<lparr>sB = d5B y, sG = d5G y,
      sval = (\<lambda>b g. \<Sum>k<d5K y. \<Sum>h<d5H y. \<Sum>w<d5W y. elt5 y b g k h w)\<rparr>"

text \<open>\<^verbatim>\<open>torch.stack(lst, dim=0).sum(dim=0)\<close> over the gathered \<^verbatim>\<open>[B, G]\<close> buffers.\<close>

definition stack_sum :: "nat \<Rightarrow> nat \<Rightarrow> stat list \<Rightarrow> stat" where
  "stack_sum B G lst = \<lparr>sB = B, sG = G, sval = (\<lambda>b g. \<Sum>p\<leftarrow>lst. sval p b g)\<rparr>"

text \<open>
  \<^verbatim>\<open>group_sum / nelements\<close>, a float tensor divided by an integer. Where
  \<^verbatim>\<open>nelements\<close> is zero torch yields nan or inf and HOL yields 0; the theorems about
  moments exclude that case by their hypotheses.
\<close>

definition stat_div :: "stat \<Rightarrow> nat \<Rightarrow> stat" where
  "stat_div s n = s\<lparr>sval := (\<lambda>b g. sval s b g / real n)\<rparr>"

text \<open>\<^verbatim>\<open>(x - E[:, :, None, None, None]) ** 2\<close>.\<close>

definition sq_dev5 :: "tensor5 \<Rightarrow> stat \<Rightarrow> tensor5" where
  "sq_dev5 y E = y\<lparr>elt5 := (\<lambda>b g k h w. (elt5 y b g k h w - sval E b g)\<^sup>2)\<rparr>"

text \<open>
  \<^verbatim>\<open>(x - E[:, :, None, None, None]) / torch.sqrt(var + self.eps)[:, :, None, None, None]\<close>.
  Where \<^verbatim>\<open>var + eps\<close> is not positive torch yields nan or inf; the theorems assume a
  positive \<^verbatim>\<open>eps\<close>.
\<close>

definition normalize5 :: "tensor5 \<Rightarrow> stat \<Rightarrow> stat \<Rightarrow> real \<Rightarrow> tensor5" where
  "normalize5 y E var e =
     y\<lparr>elt5 := (\<lambda>b g k h w. (elt5 y b g k h w - sval E b g) / sqrt (sval var b g + e))\<rparr>"

text \<open>
  Broadcasting of one axis: sizes \<open>m\<close> and \<open>n\<close> broadcast when they are equal or one of
  them is 1; an axis of size 1 is read at index 0.
\<close>

definition bdim :: "nat \<Rightarrow> nat \<Rightarrow> error + nat" where
  "bdim m n = (if m = n then Inr m else if m = 1 then Inr n else if n = 1 then Inr m
               else Inl BroadcastError)"

definition bidx :: "nat \<Rightarrow> nat \<Rightarrow> nat" where
  "bidx m i = (if m = 1 then 0 else i)"

text \<open>
  \<^verbatim>\<open>x * v[None, :, None, None]\<close> and \<^verbatim>\<open>x + v[None, :, None, None]\<close> for a 1-D
  per-channel vector \<open>v\<close>.
\<close>

definition chan_op :: "(real \<Rightarrow> real \<Rightarrow> real) \<Rightarrow> tensor4 \<Rightarrow> real list \<Rightarrow> error + tensor4" where
  "chan_op f x v =
     (case bdim (dimC x) (length v) of
        Inl e \<Rightarrow> Inl e
      | Inr C \<Rightarrow>
          Inr (x\<lparr>dimC := C,
                 elt := (\<lambda>b c h w. f (elt x b (bidx (dimC x) c) h w) (v ! bidx (length v) c))\<rparr>))"

section \<open>PatchGroupNorm\<close>

record group_norm =
  num_groups :: nat
  num_channels :: nat
  eps :: real
  weight :: "real list option"
  bias :: "real list option"

text \<open>
  Modelled from the spec: \<^verbatim>\<open>torch.nn.GroupNorm.__init__\<close>, the constructor of the base
  class, is not under \<^verbatim>\<open>src/\<close>. The spec says that the channel count must be a multiple of
  the group count and that a violation is a configuration error detected at construction
  (the class docstring in the source says the same: "num_channels must be divisible by
  num_groups"). The test is \<^verbatim>\<open>num_channels % num_groups != 0\<close>; with \<open>affine\<close> the weight
  starts as ones and the bias as zeros, one per channel, otherwise both are \<^verbatim>\<open>None\<close>.
\<close>

definition GroupNorm_init :: "nat \<Rightarrow> nat \<Rightarrow> real \<Rightarrow> bool \<Rightarrow> error + group_norm" where
  "GroupNorm_init G C e affine =
     (if G = 0 then Inl ZeroDivisionError
      else if C mod G \<noteq> 0 then Inl NotDivisible
      else Inr \<lparr>num_groups = G, num_channels = C, eps = e,
                weight = (if affine then Some (replicate C 1) else None),
                bias = (if affine then Some (replicate C 0) else None)\<rparr>)"

text \<open>\<^verbatim>\<open>PatchGroupNorm.__init__\<close> (lines 140-143) only calls the base constructor.\<close>

definition PatchGroupNorm_init :: "nat \<Rightarrow> nat \<Rightarrow> real \<Rightarrow> bool \<Rightarrow> error + group_norm" where
  "PatchGroupNorm_init G C e affine = GroupNorm_init G C e affine"

text \<open>What one worker holds after each stage of \<^verbatim>\<open>PatchGroupNorm.forward\<close>.\<close>

record pgn_sums =
  ps_x :: tensor5
  ps_nelements :: nat
  ps_partial_sum :: stat

record pgn_mean =
  pm_x :: tensor5
  pm_nelements :: nat
  pm_E :: stat
  pm_partial_var_sum :: stat

record pgn_moments =
  mo_x :: tensor5
  mo_E :: stat
  mo_var :: stat

text \<open>
  Lines 150-156, on one worker, after the height exchange: the global height, the
  channels per group, the element count, the 5-D view and the local partial sum.
\<close>

definition PGN_sums :: "group_norm \<Rightarrow> tensor4 \<Rightarrow> nat list \<Rightarrow> error + pgn_sums" where
  "PGN_sums m x height_list =
     (let height = sum_list height_list
      in if num_groups m = 0 then Inl ZeroDivisionError
         else let channels_per_group = dimC x div num_groups m;
                  nelements = channels_per_group * height * dimW x
              in case view5 x (num_groups m) of
                   Inl e \<Rightarrow> Inl e
                 | Inr y \<Rightarrow>
                     Inr \<lparr>ps_x = y, ps_nelements = nelements,
                          ps_partial_sum = sum_to_size5 y\<rparr>)"

text \<open>
  Lines 159-164, after the exchange of the partial sums: the group mean \<open>E\<close> and the
  local partial sum of squared deviations from it.
\<close>

definition PGN_mean :: "pgn_sums \<Rightarrow> stat list \<Rightarrow> pgn_mean" where
  "PGN_mean s partial_sum_list =
     (let group_sum = stack_sum (d5B (ps_x s)) (d5G (ps_x s)) partial_sum_list;
          E = stat_div group_sum (ps_nelements s)
      in \<lparr>pm_x = ps_x s, pm_nelements = ps_nelements s, pm_E = E,
          pm_partial_var_sum = sum_to_size5 (sq_dev5 (ps_x s) E)\<rparr>)"

text \<open>Lines 167-169, after the exchange of the partial sums of squared deviations.\<close>

definition PGN_var :: "pgn_mean \<Rightarrow> stat list \<Rightarrow> pgn_moments" where
  "PGN_var s partial_var_sum_list =
     (let group_var_sum = stack_sum (d5B (pm_x s)) (d5G (pm_x s)) partial_var_sum_list;
          var = stat_div group_var_sum (pm_nelements s)
      in \<lparr>mo_x = pm_x s, mo_E = pm_E s, mo_var = var\<rparr>)"

text \<open>
  Lines 146-169 on all workers: three \<^verbatim>\<open>all_gather\<close> calls (the heights, the partial
  sums, the partial sums of squared deviations) with local work between them. The
  argument is the list of the workers' shards in rank order.
\<close>

definition PGN_moments :: "group_norm \<Rightarrow> tensor4 list \<Rightarrow> pgn_moments list run" where
  "PGN_moments m xs =
     bind_run (post Gather_height (Inr (all_gather (map dimH xs)))) (\<lambda>height_lists.
     bind_run (local_step (all_ranks (map2 (PGN_sums m) xs height_lists))) (\<lambda>s1.
     bind_run (post Gather_partial_sum (all_gather_stat (map ps_partial_sum s1))) (\<lambda>sum_lists.
     bind_run (local_step (Inr (map2 PGN_mean s1 sum_lists))) (\<lambda>s2.
     bind_run (post Gather_partial_var (all_gather_stat (map pm_partial_var_sum s2))) (\<lambda>var_lists.
     local_step (Inr (map2 PGN_var s2 var_lists)))))))"

text \<open>
  Lines 171-173 on one worker: normalise, view back to four axes, apply the per-channel
  weight and bias. With \<^verbatim>\<open>affine=False\<close> the weight is \<^verbatim>\<open>None\<close> and line 173 raises.
\<close>

definition PGN_apply :: "group_norm \<Rightarrow> pgn_moments \<Rightarrow> error + tensor4" where
  "PGN_apply m s =
     (case view4 (normalize5 (mo_x s) (mo_E s) (mo_var s) (eps m)) of
        Inl e \<Rightarrow> Inl e
      | Inr xn \<Rightarrow>
          (case weight m of
             None \<Rightarrow> Inl NoneTypeError
           | Some wt \<Rightarrow>
               (case chan_op (*) xn wt of
                  Inl e \<Rightarrow> Inl e
                | Inr xw \<Rightarrow>
                    (case bias m of
                       None \<Rightarrow> Inl NoneTypeError
                     | Some bs \<Rightarrow> chan_op (+) xw bs))))"

definition PatchGroupNorm_forward :: "group_norm \<Rightarrow> tensor4 list \<Rightarrow> tensor4 list run" where
  "PatchGroupNorm_forward m xs =
     bind_run (PGN_moments m xs) (\<lambda>ss. local_step (all_ranks (map (PGN_apply m) ss)))"

section \<open>The unsharded group normalisation\<close>

text \<open>
  The single-worker algorithm that the distributed one is compared with, written from the
  spec's words: the channels are split into \<open>G\<close> contiguous groups of equal size, the mean
  of a (batch, group) pair is the sum of its elements divided by their number, the
  variance is the biased one (the sum of squared deviations from that mean divided by the
  same number), and an element is normalised as \<open>(x - mean) / sqrt (var + eps)\<close>. This is
  what \<^verbatim>\<open>F.group_norm(x, num_groups, eps=eps)\<close> of line 44 computes; torch raises when
  the channel count is not a multiple of the group count.
\<close>

definition group_mean :: "tensor4 \<Rightarrow> nat \<Rightarrow> nat \<Rightarrow> nat \<Rightarrow> real" where
  "group_mean x G b g =
     (let K = dimC x div G
      in (\<Sum>k<K. \<Sum>h<dimH x. \<Sum>w<dimW x. elt x b (g * K + k) h w)
           / real (K * dimH x * dimW x))"

definition group_var :: "tensor4 \<Rightarrow> nat \<Rightarrow> nat \<Rightarrow> nat \<Rightarrow> real" where
  "group_var x G b g =
     (let K = dimC x div G
      in (\<Sum>k<K. \<Sum>h<dimH x. \<Sum>w<dimW x. (elt x b (g * K + k) h w - group_mean x G b g)\<^sup>2)
           / real (K * dimH x * dimW x))"

definition group_norm_unsharded :: "tensor4 \<Rightarrow> nat \<Rightarrow> real \<Rightarrow> error + tensor4" where
  "group_norm_unsharded x G e =
     (if G = 0 then Inl ZeroDivisionError
      else if dimC x mod G \<noteq> 0 then Inl NotDivisible
      else let K = dimC x div G
           in Inr (x\<lparr>elt := (\<lambda>b c h w. (elt x b c h w - group_mean x G b (c div K))
                                       / sqrt (group_var x G b (c div K) + e))\<rparr>))"

text \<open>
  The unsharded layer with per-channel weight and bias,
  \<^verbatim>\<open>F.group_norm(x, num_groups, weight, bias, eps)\<close>: the normalisation above followed by
  the same two per-channel operations as lines 173.
\<close>

definition GroupNorm_forward :: "group_norm \<Rightarrow> tensor4 \<Rightarrow> error + tensor4" where
  "GroupNorm_forward m x =
     (case group_norm_unsharded x (num_groups m) (eps m) of
        Inl e \<Rightarrow> Inl e
      | Inr xn \<Rightarrow>
          (case (weight m, bias m) of
             (Some wt, Some bs) \<Rightarrow>
               (case chan_op (*) xn wt of Inl e \<Rightarrow> Inl e | Inr xw \<Rightarrow> chan_op (+) xw bs)
           | _ \<Rightarrow> Inr xn))"

text \<open>
  The full tensor reassembled from the workers' shards: the shards are contiguous,
  disjoint ranges of the height axis, in rank order (\<^verbatim>\<open>torch.cat(xs, dim=2)\<close>). Worker
  \<open>r\<close> holds the rows from \<open>row_offset xs r\<close> on.
\<close>

fun hcat_elt :: "tensor4 list \<Rightarrow> nat \<Rightarrow> nat \<Rightarrow> nat \<Rightarrow> nat \<Rightarrow> real" where
  "hcat_elt [] b c h w = 0"
| "hcat_elt (x # xs) b c h w =
     (if h < dimH x then elt x b c h w else hcat_elt xs b c (h - dimH x) w)"

definition hcat :: "tensor4 list \<Rightarrow> tensor4" where
  "hcat xs = \<lparr>dimB = dimB (hd xs), dimC = dimC (hd xs), dimH = sum_list (map dimH xs),
              dimW = dimW (hd xs), elt = hcat_elt xs\<rparr>"

definition row_offset :: "tensor4 list \<Rightarrow> nat \<Rightarrow> nat" where
  "row_offset xs r = sum_list (map dimH (take r xs))"

text \<open>
  The inputs the data model describes: at least one worker, every shard non-empty, all
  shards with the same batch size \<open>B\<close> and width \<open>W\<close> and with the layer's channel
  count, and a group count that divides the channel count.
\<close>

definition shards_ok :: "group_norm \<Rightarrow> nat \<Rightarrow> nat \<Rightarrow> tensor4 list \<Rightarrow> bool" where
  "shards_ok m B W xs =
     (xs \<noteq> [] \<and> 0 < B \<and> 0 < W \<and> 0 < num_groups m \<and> 0 < num_channels m
      \<and> num_groups m dvd num_channels m
      \<and> list_all (\<lambda>x. dimB x = B \<and> dimC x = num_channels m \<and> dimW x = W \<and> 0 < dimH x) xs)"

definition affine_ok :: "group_norm \<Rightarrow> bool" where
  "affine_ok m =
     (case (weight m, bias m) of
        (Some wt, Some bs) \<Rightarrow> length wt = num_channels m \<and> length bs = num_channels m
      | _ \<Rightarrow> False)"

section \<open>AdaGroupNorm and PatchAdaGroupNorm\<close>

text \<open>
  A 2-D array \<^verbatim>\<open>[rows, cols]\<close>: the embedding, and the scale and shift derived from it
  (their 4-D form \<^verbatim>\<open>[rows, cols, 1, 1]\<close> holds the same data).
\<close>

record matrix =
  rows :: nat
  cols :: nat
  mval :: "nat \<Rightarrow> nat \<Rightarrow> real"

text \<open>\<^verbatim>\<open>nn.Linear(in_features, out_features)\<close> with its learned weight and bias.\<close>

record linear =
  in_features :: nat
  out_features :: nat
  lin_weight :: "nat \<Rightarrow> nat \<Rightarrow> real"
  lin_bias :: "nat \<Rightarrow> real"

definition linear_forward :: "linear \<Rightarrow> matrix \<Rightarrow> error + matrix" where
  "linear_forward l emb =
     (if cols emb \<noteq> in_features l then Inl MatmulError
      else Inr \<lparr>rows = rows emb, cols = out_features l,
                mval = (\<lambda>b j. (\<Sum>i<in_features l. mval emb b i * lin_weight l j i)
                                 + lin_bias l j)\<rparr>)"

text \<open>
  Both classes keep the same attributes (lines 26-35 and 52-61). The activation is the
  function that \<^verbatim>\<open>get_activation(act_fn)\<close> has looked up, or \<^verbatim>\<open>None\<close>; the values
  of the linear layer's parameters are arguments of the model's constructor. Neither
  constructor has a check of its own.
\<close>

record ada_group_norm =
  ada_num_groups :: nat
  ada_eps :: real
  ada_act :: "(real \<Rightarrow> real) option"
  ada_linear :: linear

definition AdaGroupNorm_init ::
  "nat \<Rightarrow> nat \<Rightarrow> nat \<Rightarrow> (real \<Rightarrow> real) option \<Rightarrow> real
     \<Rightarrow> (nat \<Rightarrow> nat \<Rightarrow> real) \<Rightarrow> (nat \<Rightarrow> real) \<Rightarrow> error + ada_group_norm" where
  "AdaGroupNorm_init embedding_dim out_dim G act e lw lb =
     Inr \<lparr>ada_num_groups = G, ada_eps = e, ada_act = act,
          ada_linear = \<lparr>in_features = embedding_dim, out_features = out_dim * 2,
                        lin_weight = lw, lin_bias = lb\<rparr>\<rparr>"


text \<open>
  \<^verbatim>\<open>emb.chunk(2, dim=1)\<close> unpacked into \<^verbatim>\<open>scale, shift\<close>: chunks of
  \<open>(cols + 1) div 2\<close> columns; a single column gives a single chunk, which cannot be
  unpacked into two names.
\<close>

definition chunk2 :: "matrix \<Rightarrow> error + matrix \<times> matrix" where
  "chunk2 e =
     (let D = cols e; s = (D + 1) div 2
      in if D = 1 then Inl UnpackError
         else Inr (\<lparr>rows = rows e, cols = s, mval = mval e\<rparr>,
                   \<lparr>rows = rows e, cols = D - s, mval = (\<lambda>b c. mval e b (s + c))\<rparr>))"

text \<open>Lines 38-42 and 64-68: activation, linear map, split into scale and shift.\<close>

definition conditioning :: "ada_group_norm \<Rightarrow> matrix \<Rightarrow> error + matrix \<times> matrix" where
  "conditioning m emb =
     (let emb1 = (case ada_act m of
                    None \<Rightarrow> emb
                  | Some a \<Rightarrow> emb\<lparr>mval := (\<lambda>b i. a (mval emb b i))\<rparr>)
      in case linear_forward (ada_linear m) emb1 of
           Inl e \<Rightarrow> Inl e
         | Inr emb2 \<Rightarrow> chunk2 emb2)"

text \<open>
  An elementwise operation of a 4-D tensor with a \<^verbatim>\<open>[rows, cols, 1, 1]\<close> tensor, the
  first two axes broadcast.
\<close>

definition cond_op :: "(real \<Rightarrow> real \<Rightarrow> real) \<Rightarrow> tensor4 \<Rightarrow> matrix \<Rightarrow> error + tensor4" where
  "cond_op f x s =
     (case bdim (dimB x) (rows s) of
        Inl e \<Rightarrow> Inl e
      | Inr B \<Rightarrow>
          (case bdim (dimC x) (cols s) of
             Inl e \<Rightarrow> Inl e
           | Inr C \<Rightarrow>
               Inr (x\<lparr>dimB := B, dimC := C,
                      elt := (\<lambda>b c h w. f (elt x (bidx (dimB x) b) (bidx (dimC x) c) h w)
                                           (mval s (bidx (rows s) b) (bidx (cols s) c)))\<rparr>)))"

text \<open>Lines 45 and 90: \<^verbatim>\<open>x * (1 + scale) + shift\<close>.\<close>

definition scale_shift :: "tensor4 \<Rightarrow> matrix \<Rightarrow> matrix \<Rightarrow> error + tensor4" where
  "scale_shift x scale shift =
     (case cond_op (*) x (scale\<lparr>mval := (\<lambda>b c. 1 + mval scale b c)\<rparr>) of
        Inl e \<Rightarrow> Inl e
      | Inr xs \<Rightarrow> cond_op (+) xs shift)"

text \<open>\<^verbatim>\<open>AdaGroupNorm.forward\<close> (lines 37-46), the unsharded conditioning variant.\<close>

definition AdaGroupNorm_forward :: "ada_group_norm \<Rightarrow> tensor4 \<Rightarrow> matrix \<Rightarrow> error + tensor4" where
  "AdaGroupNorm_forward m x emb =
     (case conditioning m emb of
        Inl e \<Rightarrow> Inl e
      | Inr (scale, shift) \<Rightarrow>
          (case group_norm_unsharded x (ada_num_groups m) (ada_eps m) of
             Inl e \<Rightarrow> Inl e
           | Inr xn \<Rightarrow> scale_shift xn scale shift))"

text \<open>
  \<^verbatim>\<open>x.sum_to_size(s0, s1)\<close> on a 4-D tensor (lines 77 and 83, where \<open>s0\<close> is the batch
  size and \<open>s1\<close> the group count). torch aligns the requested size with the \<^emph>\<open>last\<close> axes
  of the tensor: \<open>s1\<close> against the width and \<open>s0\<close> against the height. Each must be 1 or
  equal to that axis, otherwise the call raises. The two leading axes (batch and
  channel) are summed away, and so is each of the last two axes whose requested size
  is 1.
\<close>

definition sum_to_size2 :: "tensor4 \<Rightarrow> nat \<Rightarrow> nat \<Rightarrow> error + stat" where
  "sum_to_size2 x s0 s1 =
     (if (s1 = dimW x \<or> s1 = 1) \<and> (s0 = dimH x \<or> s0 = 1)
      then Inr \<lparr>sB = s0, sG = s1,
                sval = (\<lambda>i j. \<Sum>b<dimB x. \<Sum>c<dimC x.
                          \<Sum>h\<in>(if s0 = 1 then {..<dimH x} else {i}).
                          \<Sum>w\<in>(if s1 = 1 then {..<dimW x} else {j}). elt x b c h w)\<rparr>
      else Inl NotExpandable)"

text \<open>
  \<^verbatim>\<open>torch.tensor(lst).sum(dim=0)\<close> on a list of tensors (lines 80 and 86):
  \<^verbatim>\<open>torch.tensor\<close> converts each tensor of the list to a Python scalar, which raises
  unless the tensor holds exactly one element; the result is the sum of those scalars.
\<close>

definition tensor_sum :: "stat list \<Rightarrow> error + real" where
  "tensor_sum lst =
     (if list_all (\<lambda>p. sB p * sG p = 1) lst then Inr (\<Sum>p\<leftarrow>lst. sval p 0 0)
      else Inl NotScalar)"

text \<open>\<^verbatim>\<open>(x - E) ** 2\<close> and \<^verbatim>\<open>(x - E) / torch.sqrt(var + self.eps)\<close> for scalars \<open>E\<close>, \<open>var\<close>.\<close>

definition sq_dev4 :: "tensor4 \<Rightarrow> real \<Rightarrow> tensor4" where
  "sq_dev4 x E = x\<lparr>elt := (\<lambda>b c h w. (elt x b c h w - E)\<^sup>2)\<rparr>"

definition normalize4 :: "tensor4 \<Rightarrow> real \<Rightarrow> real \<Rightarrow> real \<Rightarrow> tensor4" where
  "normalize4 x E var e = x\<lparr>elt := (\<lambda>b c h w. (elt x b c h w - E) / sqrt (var + e))\<rparr>"

text \<open>What one worker holds after each stage of \<^verbatim>\<open>PatchAdaGroupNorm.forward\<close>.\<close>

record pagn_cond =
  ac_x :: tensor4
  ac_scale :: matrix
  ac_shift :: matrix

record pagn_sums =
  as_in :: pagn_cond
  as_nelements :: nat
  as_partial_sum :: stat

record pagn_mean =
  am_in :: pagn_cond
  am_nelements :: nat
  am_E :: real
  am_partial_var :: stat

record pagn_moments =
  av_in :: pagn_cond
  av_E :: real
  av_var :: real

text \<open>Lines 64-68 on one worker, before any collective.\<close>

definition PAGN_cond :: "ada_group_norm \<Rightarrow> tensor4 \<times> matrix \<Rightarrow> error + pagn_cond" where
  "PAGN_cond m xe =
     (case conditioning m (snd xe) of
        Inl e \<Rightarrow> Inl e
      | Inr (scale, shift) \<Rightarrow> Inr \<lparr>ac_x = fst xe, ac_scale = scale, ac_shift = shift\<rparr>)"

text \<open>
  Lines 73-77 on one worker: the global height, the channels per group and the local
  partial sum. The normaliser \<^verbatim>\<open>channels_per_group * height * x.shape[-1]\<close> of lines
  81 and 87 is kept as \<open>as_nelements\<close>.
\<close>

definition PAGN_sums :: "ada_group_norm \<Rightarrow> pagn_cond \<Rightarrow> nat list \<Rightarrow> error + pagn_sums" where
  "PAGN_sums m s height_list =
     (let x = ac_x s; height = sum_list height_list
      in if ada_num_groups m = 0 then Inl ZeroDivisionError
         else let channels_per_group = dimC x div ada_num_groups m
              in case sum_to_size2 x (dimB x) (ada_num_groups m) of
                   Inl e \<Rightarrow> Inl e
                 | Inr partial_sum \<Rightarrow>
                     Inr \<lparr>as_in = s, as_nelements = channels_per_group * height * dimW x,
                          as_partial_sum = partial_sum\<rparr>)"

text \<open>Lines 80-83 on one worker.\<close>

definition PAGN_mean :: "ada_group_norm \<Rightarrow> pagn_sums \<Rightarrow> stat list \<Rightarrow> error + pagn_mean" where
  "PAGN_mean m s partial_sum_list =
     (let x = ac_x (as_in s)
      in case tensor_sum partial_sum_list of
           Inl e \<Rightarrow> Inl e
         | Inr group_sum \<Rightarrow>
             (let E = group_sum / real (as_nelements s)
              in case sum_to_size2 (sq_dev4 x E) (dimB x) (ada_num_groups m) of
                   Inl e \<Rightarrow> Inl e
                 | Inr partial_var \<Rightarrow>
                     Inr \<lparr>am_in = as_in s, am_nelements = as_nelements s, am_E = E,
                          am_partial_var = partial_var\<rparr>))"

text \<open>Lines 86-87 on one worker (\<open>group_var_sum\<close> is the source's \<^verbatim>\<open>group_var\<close>).\<close>

definition PAGN_var :: "pagn_mean \<Rightarrow> stat list \<Rightarrow> error + pagn_moments" where
  "PAGN_var s partial_var_list =
     (case tensor_sum partial_var_list of
        Inl e \<Rightarrow> Inl e
      | Inr group_var_sum \<Rightarrow>
          Inr \<lparr>av_in = am_in s, av_E = am_E s,
               av_var = group_var_sum / real (am_nelements s)\<rparr>)"

text \<open>
  Lines 64-87 on all workers; the argument is the list of the workers' inputs (shard and
  embedding) in rank order.
\<close>

definition PAGN_moments :: "ada_group_norm \<Rightarrow> (tensor4 \<times> matrix) list \<Rightarrow> pagn_moments list run" where
  "PAGN_moments m inputs =
     bind_run (local_step (all_ranks (map (PAGN_cond m) inputs))) (\<lambda>s0.
     bind_run (post Gather_height (Inr (all_gather (map (\<lambda>s. dimH (ac_x s)) s0)))) (\<lambda>height_lists.
     bind_run (local_step (all_ranks (map2 (PAGN_sums m) s0 height_lists))) (\<lambda>s1.
     bind_run (post Gather_partial_sum (all_gather_stat (map as_partial_sum s1))) (\<lambda>sum_lists.
     bind_run (local_step (all_ranks (map2 (PAGN_mean m) s1 sum_lists))) (\<lambda>s2.
     bind_run (post Gather_partial_var (all_gather_stat (map am_partial_var s2))) (\<lambda>var_lists.
     local_step (all_ranks (map2 PAGN_var s2 var_lists))))))))"

text \<open>Lines 89-90 on one worker.\<close>

definition PAGN_apply :: "ada_group_norm \<Rightarrow> pagn_moments \<Rightarrow> error + tensor4" where
  "PAGN_apply m s =
     scale_shift (normalize4 (ac_x (av_in s)) (av_E s) (av_var s) (ada_eps m))
       (ac_scale (av_in s)) (ac_shift (av_in s))"

definition PatchAdaGroupNorm_forward ::
  "ada_group_norm \<Rightarrow> (tensor4 \<times> matrix) list \<Rightarrow> tensor4 list run" where
  "PatchAdaGroupNorm_forward m inputs =
     bind_run (PAGN_moments m inputs) (\<lambda>ss. local_step (all_ranks (map (PAGN_apply m) ss)))"

section \<open>Closed forms of the distributed moments\<close>

text \<open>
  What \<^verbatim>\<open>PatchGroupNorm.forward\<close> holds on well-formed shards, written out: the 5-D
  view of a shard, the element count, and the mean and variance every worker ends up
  with. They are used to state and prove the lemmas below.
\<close>

definition gview :: "group_norm \<Rightarrow> tensor4 \<Rightarrow> tensor5" where
  "gview m x = \<lparr>d5B = dimB x, d5G = num_groups m, d5K = dimC x div num_groups m,
                d5H = dimH x, d5W = dimW x,
                elt5 = (\<lambda>b g k h w. elt x b (g * (dimC x div num_groups m) + k) h w)\<rparr>"

definition dist_nelements :: "group_norm \<Rightarrow> nat \<Rightarrow> tensor4 list \<Rightarrow> nat" where
  "dist_nelements m W xs = num_channels m div num_groups m * sum_list (map dimH xs) * W"

definition dist_E :: "group_norm \<Rightarrow> nat \<Rightarrow> nat \<Rightarrow> tensor4 list \<Rightarrow> stat" where
  "dist_E m B W xs =
     stat_div (stack_sum B (num_groups m) (map (\<lambda>x. sum_to_size5 (gview m x)) xs))
       (dist_nelements m W xs)"

definition dist_var :: "group_norm \<Rightarrow> nat \<Rightarrow> nat \<Rightarrow> tensor4 list \<Rightarrow> stat" where
  "dist_var m B W xs =
     stat_div (stack_sum B (num_groups m)
                (map (\<lambda>x. sum_to_size5 (sq_dev5 (gview m x) (dist_E m B W xs))) xs))
       (dist_nelements m W xs)"

section \<open>The two-worker scenario\<close>

text \<open>
  Two workers, one group, one channel, \<^verbatim>\<open>eps = 1e-5\<close>: worker A holds rows 0-1 of a
  4 x 4 image, all 1.0, worker B rows 2-3, all 3.0. The layer is the one that
  \<^verbatim>\<open>PatchGroupNorm(1, 1)\<close> constructs.
\<close>

definition scenario_layer :: group_norm where
  "scenario_layer = \<lparr>num_groups = 1, num_channels = 1, eps = 1 / 100000,
                      weight = Some [1], bias = Some [0]\<rparr>"

definition shard_A :: tensor4 where
  "shard_A = \<lparr>dimB = 1, dimC = 1, dimH = 2, dimW = 4, elt = (\<lambda>b c h w. 1)\<rparr>"

definition shard_B :: tensor4 where
  "shard_B = \<lparr>dimB = 1, dimC = 1, dimH = 2, dimW = 4, elt = (\<lambda>b c h w. 3)\<rparr>"

section \<open>Closed forms of the moments of PatchAdaGroupNorm\<close>

text \<open>
  The inputs on which \<^verbatim>\<open>PatchAdaGroupNorm.forward\<close> returns: a single group and batch
  size 1 on every worker (see \<open>PAGN_returns_only_single\<close> below), shards that agree
  on the channel count \<open>C\<close> and the width \<open>W\<close>, and an embedding that fits the linear
  layer, whose \<^verbatim>\<open>out_dim\<close> is the channel count.
\<close>

definition ada_shards_ok ::
  "ada_group_norm \<Rightarrow> nat \<Rightarrow> nat \<Rightarrow> (tensor4 \<times> matrix) list \<Rightarrow> bool" where
  "ada_shards_ok m C W inputs =
     (inputs \<noteq> [] \<and> 0 < C \<and> 0 < W \<and> ada_num_groups m = 1
      \<and> out_features (ada_linear m) = 2 * C
      \<and> list_all (\<lambda>xe. dimB (fst xe) = 1 \<and> dimC (fst xe) = C \<and> dimW (fst xe) = W
                         \<and> 0 < dimH (fst xe) \<and> rows (snd xe) = 1
                         \<and> cols (snd xe) = in_features (ada_linear m)) inputs)"

definition ada_cond :: "ada_group_norm \<Rightarrow> tensor4 \<times> matrix \<Rightarrow> pagn_cond" where
  "ada_cond m xe = projr (PAGN_cond m xe)"

definition ada_total :: "(real \<Rightarrow> real) \<Rightarrow> tensor4 \<Rightarrow> real" where
  "ada_total \<phi> x = (\<Sum>b<dimB x. \<Sum>c<dimC x. \<Sum>h<dimH x. \<Sum>w<dimW x. \<phi> (elt x b c h w))"

definition ada_nelements :: "nat \<Rightarrow> nat \<Rightarrow> (tensor4 \<times> matrix) list \<Rightarrow> nat" where
  "ada_nelements C W inputs = C * sum_list (map (\<lambda>xe. dimH (fst xe)) inputs) * W"

definition ada_E :: "nat \<Rightarrow> nat \<Rightarrow> (tensor4 \<times> matrix) list \<Rightarrow> real" where
  "ada_E C W inputs =
     (\<Sum>xe\<leftarrow>inputs. ada_total (\<lambda>v. v) (fst xe)) / real (ada_nelements C W inputs)"

definition ada_var :: "nat \<Rightarrow> nat \<Rightarrow> (tensor4 \<times> matrix) list \<Rightarrow> real" where
  "ada_var C W inputs =
     (\<Sum>xe\<leftarrow>inputs. ada_total (\<lambda>v. (v - ada_E C W inputs)\<^sup>2) (fst xe))
       / real (ada_nelements C W inputs)"

section \<open>Further concrete inputs\<close>

text \<open>
  A linear layer whose parameters are all zero (scale and shift are then zero), an
  embedding of one row and one column, and the conditioning layer that
  \<^verbatim>\<open>PatchAdaGroupNorm(embedding_dim=1, out_dim=1, num_groups=1)\<close> constructs with such
  parameters.
\<close>

definition zero_weight :: "nat \<Rightarrow> nat \<Rightarrow> real" where
  "zero_weight j i = 0"

definition zero_bias :: "nat \<Rightarrow> real" where
  "zero_bias j = 0"

definition unit_emb :: matrix where
  "unit_emb = \<lparr>rows = 1, cols = 1, mval = (\<lambda>b i. 1)\<rparr>"

definition ada_layer :: "nat \<Rightarrow> nat \<Rightarrow> real \<Rightarrow> ada_group_norm" where
  "ada_layer out_dim G e =
     \<lparr>ada_num_groups = G, ada_eps = e, ada_act = None,
      ada_linear = \<lparr>in_features = 1, out_features = out_dim * 2,
                    lin_weight = zero_weight, lin_bias = zero_bias\<rparr>\<rparr>"

definition scenario_ada :: ada_group_norm where
  "scenario_ada = ada_layer 1 1 (1 / 100000)"

text \<open>One shard of batch size 1 with \<open>C\<close> channels, height \<open>H\<close> and width \<open>W\<close>; the value
  of an element is its channel index.\<close>

definition channel_shard :: "nat \<Rightarrow> nat \<Rightarrow> nat \<Rightarrow> tensor4" where
  "channel_shard C H W = \<lparr>dimB = 1, dimC = C, dimH = H, dimW = W, elt = (\<lambda>b c h w. real c)\<rparr>"

text \<open>Two channels in two groups; the value \<open>v\<close> sits in channel 0, the value 7 in
  channel 1.\<close>

definition two_group_layer :: group_norm where
  "two_group_layer = \<lparr>num_groups = 2, num_channels = 2, eps = 1 / 100000,
                       weight = Some [1, 1], bias = Some [0, 0]\<rparr>"

definition pair_shard :: "real \<Rightarrow> tensor4" where
  "pair_shard v = \<lparr>dimB = 1, dimC = 2, dimH = 1, dimW = 1,
                   elt = (\<lambda>b c h w. if c = 0 then v else 7)\<rparr>"

section \<open>Outcomes of runs and inputs that differ in the channel count\<close>

text \<open>
  The outcome of a run: the collective calls posted, and the error raised or the fact
  that the run returned. Two workers' inputs are \<open>same_but_channels\<close> when they have the
  same batch size, height, width and embedding; the channel counts and the element
  values are free.
\<close>

definition outcome :: "'a run \<Rightarrow> collective list \<times> (error + unit)" where
  "outcome r = (fst r, map_sum id (\<lambda>_. ()) (snd r))"







text \<open>The layer that \<^verbatim>\<open>PatchGroupNorm(3, 9)\<close> constructs.\<close>

definition three_group_layer :: group_norm where
  "three_group_layer = \<lparr>num_groups = 3, num_channels = 9, eps = 1 / 100000,
                         weight = Some (replicate 9 1), bias = Some (replicate 9 0)\<rparr>"

section \<open>Verification of PatchGroupNorm\<close>

lemma sum_lessThan_add: "(\<Sum>h<a + b. f h) = (\<Sum>h<a. f h) + (\<Sum>h<b. f (a + h))" for f :: "nat \<Rightarrow> real"
  by (induction b) (simp_all add: add.assoc)

lemma map2_all_gather: "map2 f xs (all_gather (map g xs)) = map (\<lambda>x. f x (map g xs)) xs"
  unfolding all_gather_def
  by (simp add: zip_map2 map_zip_map2 zip_same_conv_map comp_def)

lemma all_ranks_Inr: "all_ranks (map (\<lambda>x. Inr (f x)) xs) = Inr (map f xs)"
  by (induction xs) simp_all

lemma view5_ok:
  assumes "0 < dimB x" "0 < dimH x" "0 < dimW x" "0 < G" "G dvd dimC x"
  shows "view5 x G = Inr \<lparr>d5B = dimB x, d5G = G, d5K = dimC x div G, d5H = dimH x, d5W = dimW x,
                      elt5 = (\<lambda>b g k h w. elt x b (g * (dimC x div G) + k) h w)\<rparr>"
proof -
  obtain K where K: "dimC x = G * K" using assms by (auto simp: dvd_def)
  have e: "dimB x * dimC x * dimH x * dimW x = (dimB x * G * dimH x * dimW x) * K"
    by (simp add: K)
  have p: "0 < dimB x * G * dimH x * dimW x" using assms by simp
  have d: "dimB x * dimC x * dimH x * dimW x div (dimB x * G * dimH x * dimW x) = K"
    unfolding e using p by simp
  have m: "dimB x * dimC x * dimH x * dimW x mod (dimB x * G * dimH x * dimW x) = 0"
    unfolding e by simp
  have k: "dimC x div G = K" using K assms by simp
  show ?thesis
    unfolding view5_def Let_def d m k using p by simp
qed

lemma gview_dims [simp]:
  "d5B (gview m x) = dimB x" "d5G (gview m x) = num_groups m"
  "d5K (gview m x) = dimC x div num_groups m" "d5H (gview m x) = dimH x"
  "d5W (gview m x) = dimW x"
  by (simp_all add: gview_def)

lemma shards_okD:
  assumes "shards_ok m B W xs" "x \<in> set xs"
  shows "dimB x = B" "dimC x = num_channels m" "dimW x = W" "0 < dimH x"
  using assms by (auto simp: shards_ok_def list_all_iff)

lemma shards_okG:
  assumes "shards_ok m B W xs"
  shows "0 < B" "0 < W" "0 < num_groups m" "0 < num_channels m"
        "num_groups m dvd num_channels m" "xs \<noteq> []"
  using assms by (auto simp: shards_ok_def)

lemma PGN_sums_ok:
  assumes ok: "shards_ok m B W xs" and x: "x \<in> set xs"
  shows "PGN_sums m x (map dimH xs) =
           Inr \<lparr>ps_x = gview m x, ps_nelements = dist_nelements m W xs,
                ps_partial_sum = sum_to_size5 (gview m x)\<rparr>"
proof -
  note d = shards_okD[OF ok x] and g = shards_okG[OF ok]
  have v: "view5 x (num_groups m) = Inr (gview m x)"
    unfolding gview_def
    by (rule view5_ok) (use d g in auto)
  show ?thesis
    using g(3) v d(2,3)
    by (simp add: PGN_sums_def Let_def dist_nelements_def)
qed

lemma all_gather_stat_ok:
  assumes "\<And>p. p \<in> set ps \<Longrightarrow> sB p = B \<and> sG p = G"
  shows "all_gather_stat ps = Inr (all_gather ps)"
  using assms by (auto simp: all_gather_stat_def list_all_iff same_shape_def)

lemma map2_all_gather':
  "map2 f (map h xs) (all_gather (map g xs)) = map (\<lambda>x. f (h x) (map g xs)) xs"
  unfolding all_gather_def
  by (simp add: zip_map2 zip_map1 map_zip_map2 zip_same_conv_map comp_def)

lemma PGN_moments_ok:
  assumes ok: "shards_ok m B W xs"
  shows "PGN_moments m xs =
           ([Gather_height, Gather_partial_sum, Gather_partial_var],
            Inr (map (\<lambda>x. \<lparr>mo_x = gview m x, mo_E = dist_E m B W xs,
                             mo_var = dist_var m B W xs\<rparr>) xs))"
proof -
  define S where "S = (\<lambda>x. \<lparr>ps_x = gview m x, ps_nelements = dist_nelements m W xs,
                ps_partial_sum = sum_to_size5 (gview m x)\<rparr>)"
  define M where "M = (\<lambda>x. \<lparr>pm_x = gview m x, pm_nelements = dist_nelements m W xs,
                pm_E = dist_E m B W xs,
                pm_partial_var_sum = sum_to_size5 (sq_dev5 (gview m x) (dist_E m B W xs))\<rparr>)"
  have B: "\<And>x. x \<in> set xs \<Longrightarrow> dimB x = B"
    using shards_okD(1)[OF ok] by simp
  have s1: "map2 (PGN_sums m) xs (all_gather (map dimH xs)) = map (\<lambda>x. Inr (S x)) xs"
    unfolding map2_all_gather S_def using PGN_sums_ok[OF ok] by simp
  have g1: "all_gather_stat (map ps_partial_sum (map S xs))
              = Inr (all_gather (map ps_partial_sum (map S xs)))"
    by (rule all_gather_stat_ok[where B = B and G = "num_groups m"])
       (auto simp: S_def sum_to_size5_def B)
  have ps: "map ps_partial_sum (map S xs) = map (\<lambda>x. sum_to_size5 (gview m x)) xs"
    by (simp add: S_def comp_def)
  have s2: "map2 PGN_mean (map S xs) (all_gather (map ps_partial_sum (map S xs))) = map M xs"
    unfolding ps map2_all_gather'
    by (simp add: PGN_mean_def S_def M_def Let_def dist_E_def B)
  have g2: "all_gather_stat (map pm_partial_var_sum (map M xs))
              = Inr (all_gather (map pm_partial_var_sum (map M xs)))"
    by (rule all_gather_stat_ok[where B = B and G = "num_groups m"])
       (auto simp: M_def sum_to_size5_def sq_dev5_def B)
  have pv: "map pm_partial_var_sum (map M xs)
              = map (\<lambda>x. sum_to_size5 (sq_dev5 (gview m x) (dist_E m B W xs))) xs"
    by (simp add: M_def comp_def)
  have s3: "map2 PGN_var (map M xs) (all_gather (map pm_partial_var_sum (map M xs)))
              = map (\<lambda>x. \<lparr>mo_x = gview m x, mo_E = dist_E m B W xs,
                             mo_var = dist_var m B W xs\<rparr>) xs"
    unfolding pv map2_all_gather'
    by (simp add: PGN_var_def M_def Let_def dist_var_def B)
  show ?thesis
    unfolding PGN_moments_def
    by (simp add: bind_run_def post_def local_step_def s1 all_ranks_Inr g1 s2 g2 s3
          del: map_map)
qed

lemma hcat_sum:
  fixes \<phi> :: "real \<Rightarrow> real"
  shows "(\<Sum>h<sum_list (map dimH xs). \<Sum>w<W. \<phi> (hcat_elt xs b c h w))
           = (\<Sum>x\<leftarrow>xs. \<Sum>h<dimH x. \<Sum>w<W. \<phi> (elt x b c h w))"
proof (induction xs)
  case Nil
  show ?case by simp
next
  case (Cons x xs)
  have "(\<Sum>h<dimH x + sum_list (map dimH xs). \<Sum>w<W. \<phi> (hcat_elt (x # xs) b c h w))
          = (\<Sum>h<dimH x. \<Sum>w<W. \<phi> (hcat_elt (x # xs) b c h w))
            + (\<Sum>h<sum_list (map dimH xs). \<Sum>w<W. \<phi> (hcat_elt (x # xs) b c (dimH x + h) w))"
    by (rule sum_lessThan_add)
  also have "(\<Sum>h<dimH x. \<Sum>w<W. \<phi> (hcat_elt (x # xs) b c h w))
          = (\<Sum>h<dimH x. \<Sum>w<W. \<phi> (elt x b c h w))"
    by (rule sum.cong) simp_all
  also have "(\<Sum>h<sum_list (map dimH xs). \<Sum>w<W. \<phi> (hcat_elt (x # xs) b c (dimH x + h) w))
          = (\<Sum>h<sum_list (map dimH xs). \<Sum>w<W. \<phi> (hcat_elt xs b c h w))"
    by simp
  finally show ?case using Cons.IH by simp
qed

lemma sum_sum_list_swap:
  fixes f :: "nat \<Rightarrow> 'a \<Rightarrow> real"
  shows "(\<Sum>k<K. \<Sum>x\<leftarrow>xs. f k x) = (\<Sum>x\<leftarrow>xs. \<Sum>k<K. f k x)"
  by (induction xs) (simp_all add: sum.distrib)

lemma hcat_group_sum:
  fixes \<phi> :: "real \<Rightarrow> real"
  shows "(\<Sum>k<K. \<Sum>h<sum_list (map dimH xs). \<Sum>w<W. \<phi> (hcat_elt xs b (g * K + k) h w))
           = (\<Sum>x\<leftarrow>xs. \<Sum>k<K. \<Sum>h<dimH x. \<Sum>w<W. \<phi> (elt x b (g * K + k) h w))"
  by (simp add: hcat_sum sum_sum_list_swap)

lemma hcat_dims:
  assumes ok: "shards_ok m B W xs"
  shows "dimB (hcat xs) = B" "dimC (hcat xs) = num_channels m" "dimW (hcat xs) = W"
        "dimH (hcat xs) = sum_list (map dimH xs)" "elt (hcat xs) = hcat_elt xs"
proof -
  have "hd xs \<in> set xs" using shards_okG(6)[OF ok] by simp
  from shards_okD[OF ok this]
  show "dimB (hcat xs) = B" "dimC (hcat xs) = num_channels m" "dimW (hcat xs) = W"
    by (simp_all add: hcat_def)
qed (simp_all add: hcat_def)

lemma dist_E_eq_mean:
  assumes ok: "shards_ok m B W xs"
  shows "sval (dist_E m B W xs) b g = group_mean (hcat xs) (num_groups m) b g"
proof -
  let ?K = "num_channels m div num_groups m"
  have "(\<Sum>x\<leftarrow>xs. sval (sum_to_size5 (gview m x)) b g)
          = (\<Sum>x\<leftarrow>xs. \<Sum>k<?K. \<Sum>h<dimH x. \<Sum>w<W. elt x b (g * ?K + k) h w)"
    by (rule arg_cong[where f = sum_list], rule map_cong)
       (simp_all add: sum_to_size5_def gview_def shards_okD[OF ok])
  also have "\<dots> = (\<Sum>k<?K. \<Sum>h<sum_list (map dimH xs). \<Sum>w<W. hcat_elt xs b (g * ?K + k) h w)"
    using hcat_group_sum[where K = ?K and xs = xs and W = W and \<phi> = "\<lambda>v. v" and b = b and g = g]
    by simp
  finally show ?thesis
    by (simp add: dist_E_def stat_div_def stack_sum_def group_mean_def Let_def
          hcat_dims[OF ok] dist_nelements_def comp_def)
qed

lemma dist_var_eq_var:
  assumes ok: "shards_ok m B W xs"
  shows "sval (dist_var m B W xs) b g = group_var (hcat xs) (num_groups m) b g"
proof -
  let ?K = "num_channels m div num_groups m"
  let ?mu = "group_mean (hcat xs) (num_groups m) b g"
  have "(\<Sum>x\<leftarrow>xs. sval (sum_to_size5 (sq_dev5 (gview m x) (dist_E m B W xs))) b g)
          = (\<Sum>x\<leftarrow>xs. \<Sum>k<?K. \<Sum>h<dimH x. \<Sum>w<W. (elt x b (g * ?K + k) h w - ?mu)\<^sup>2)"
    by (rule arg_cong[where f = sum_list], rule map_cong)
       (simp_all add: sum_to_size5_def sq_dev5_def gview_def shards_okD[OF ok]
          dist_E_eq_mean[OF ok])
  also have "\<dots> = (\<Sum>k<?K. \<Sum>h<sum_list (map dimH xs). \<Sum>w<W.
                      (hcat_elt xs b (g * ?K + k) h w - ?mu)\<^sup>2)"
    using hcat_group_sum[where K = ?K and xs = xs and W = W
          and \<phi> = "\<lambda>v. (v - ?mu)\<^sup>2" and b = b and g = g]
    by simp
  finally show ?thesis
    by (simp add: dist_var_def stat_div_def stack_sum_def group_var_def Let_def
          hcat_dims[OF ok] dist_nelements_def comp_def)
qed

lemma hcat_elt_slice:
  "r < length xs \<Longrightarrow> h < dimH (xs ! r) \<Longrightarrow>
     hcat_elt xs b c (row_offset xs r + h) w = elt (xs ! r) b c h w"
proof (induction xs arbitrary: r)
  case Nil
  then show ?case by simp
next
  case (Cons x xs)
  show ?case
  proof (cases r)
    case 0
    with Cons.prems show ?thesis by (simp add: row_offset_def)
  next
    case (Suc r')
    with Cons.prems Cons.IH[of r'] show ?thesis by (simp add: row_offset_def)
  qed
qed

lemma view4_ok:
  assumes "0 < d5B y" "0 < d5H y" "0 < d5W y"
  shows "view4 y = Inr \<lparr>dimB = d5B y, dimC = d5G y * d5K y, dimH = d5H y, dimW = d5W y,
                   elt = (\<lambda>b c h w. elt5 y b (c div d5K y) (c mod d5K y) h w)\<rparr>"
proof -
  have e: "d5B y * d5G y * d5K y * d5H y * d5W y = (d5B y * d5H y * d5W y) * (d5G y * d5K y)"
    by simp
  have p: "0 < d5B y * d5H y * d5W y" using assms by simp
  have d: "d5B y * d5G y * d5K y * d5H y * d5W y div (d5B y * d5H y * d5W y) = d5G y * d5K y"
    unfolding e using p by simp
  have m: "d5B y * d5G y * d5K y * d5H y * d5W y mod (d5B y * d5H y * d5W y) = 0"
    unfolding e by simp
  show ?thesis
    unfolding view4_def Let_def d m using p by simp
qed

lemma bidx_in_range: "c < C \<Longrightarrow> bidx C c = c"
  by (auto simp: bidx_def)

lemma chan_op_ok:
  assumes "length v = dimC x"
  shows "chan_op f x v = Inr (x\<lparr>elt := (\<lambda>b c h w. f (elt x b (bidx (dimC x) c) h w)
                                                 (v ! bidx (dimC x) c))\<rparr>)"
  using assms by (simp add: chan_op_def bdim_def)

lemma PGN_apply_ok:
  assumes pos: "0 < dimB x" "0 < dimH x" "0 < dimW x"
    and dv: "num_groups m dvd dimC x"
    and wt: "weight m = Some wt" "length wt = dimC x"
    and bs: "bias m = Some bs" "length bs = dimC x"
  shows "\<exists>y. PGN_apply m \<lparr>mo_x = gview m x, mo_E = E, mo_var = V\<rparr> = Inr y
           \<and> dimB y = dimB x \<and> dimC y = dimC x \<and> dimH y = dimH x \<and> dimW y = dimW x
           \<and> (\<forall>c<dimC x. \<forall>b h w. elt y b c h w =
                 (elt x b c h w - sval E b (c div (dimC x div num_groups m)))
                   / sqrt (sval V b (c div (dimC x div num_groups m)) + eps m) * wt ! c + bs ! c)"
proof -
  let ?K = "dimC x div num_groups m"
  have C: "num_groups m * ?K = dimC x" using dv by simp
  have v4: "view4 (normalize5 (gview m x) E V (eps m)) =
              Inr \<lparr>dimB = dimB x, dimC = dimC x, dimH = dimH x, dimW = dimW x,
                   elt = (\<lambda>b c h w. (elt x b c h w - sval E b (c div ?K))
                                       / sqrt (sval V b (c div ?K) + eps m))\<rparr>"
    using pos C by (subst view4_ok) (simp_all add: normalize5_def gview_def div_mult_mod_eq)
  show ?thesis
    unfolding PGN_apply_def
    by (simp add: v4 wt bs chan_op_ok bidx_in_range)
qed

lemma GroupNorm_forward_ok:
  assumes G: "0 < num_groups m" and dv: "num_groups m dvd dimC x"
    and wt: "weight m = Some wt" "length wt = dimC x"
    and bs: "bias m = Some bs" "length bs = dimC x"
  shows "\<exists>y. GroupNorm_forward m x = Inr y
           \<and> dimB y = dimB x \<and> dimC y = dimC x \<and> dimH y = dimH x \<and> dimW y = dimW x
           \<and> (\<forall>c<dimC x. \<forall>b h w. elt y b c h w =
                 (elt x b c h w - group_mean x (num_groups m) b (c div (dimC x div num_groups m)))
                   / sqrt (group_var x (num_groups m) b (c div (dimC x div num_groups m)) + eps m)
                   * wt ! c + bs ! c)"
proof -
  have md: "dimC x mod num_groups m = 0" using dv by auto
  show ?thesis
    unfolding GroupNorm_forward_def group_norm_unsharded_def
    using G by (simp add: md Let_def wt bs chan_op_ok bidx_in_range)
qed

lemma all_ranks_projr:
  assumes "\<And>x. x \<in> set xs \<Longrightarrow> \<exists>y. f x = Inr y"
  shows "all_ranks (map f xs) = Inr (map (\<lambda>x. projr (f x)) xs)"
  using assms
proof (induction xs)
  case Nil
  show ?case by simp
next
  case (Cons x xs)
  from Cons.prems[of x] obtain y where y: "f x = Inr y" by auto
  have "all_ranks (map f xs) = Inr (map (\<lambda>x. projr (f x)) xs)"
    by (rule Cons.IH) (simp add: Cons.prems)
  with y show ?case by simp
qed

lemma affine_okD:
  assumes "affine_ok m"
  obtains wt bs where "weight m = Some wt" "bias m = Some bs"
    "length wt = num_channels m" "length bs = num_channels m"
  using assms by (auto simp: affine_ok_def split: option.splits)

lemma PatchGroupNorm_forward_ok:
  assumes ok: "shards_ok m B W xs" and aff: "affine_ok m"
  shows "PatchGroupNorm_forward m xs =
           ([Gather_height, Gather_partial_sum, Gather_partial_var],
            Inr (map (\<lambda>x. projr (PGN_apply m \<lparr>mo_x = gview m x, mo_E = dist_E m B W xs,
                                                mo_var = dist_var m B W xs\<rparr>)) xs))"
proof -
  from aff obtain wt bs where wb: "weight m = Some wt" "bias m = Some bs"
    "length wt = num_channels m" "length bs = num_channels m"
    by (rule affine_okD)
  have "\<exists>y. PGN_apply m \<lparr>mo_x = gview m x, mo_E = dist_E m B W xs,
                          mo_var = dist_var m B W xs\<rparr> = Inr y" if x: "x \<in> set xs" for x
    using PGN_apply_ok[of x m wt bs "dist_E m B W xs" "dist_var m B W xs"]
      shards_okD[OF ok x] shards_okG[OF ok] wb by auto
  then have "all_ranks (map (\<lambda>x. PGN_apply m \<lparr>mo_x = gview m x, mo_E = dist_E m B W xs,
                          mo_var = dist_var m B W xs\<rparr>) xs)
               = Inr (map (\<lambda>x. projr (PGN_apply m \<lparr>mo_x = gview m x, mo_E = dist_E m B W xs,
                                                mo_var = dist_var m B W xs\<rparr>)) xs)"
    by (rule all_ranks_projr)
  then show ?thesis
    unfolding PatchGroupNorm_forward_def PGN_moments_ok[OF ok]
    by (simp add: bind_run_def local_step_def comp_def)
qed

text \<open>
  C1: for shards that are contiguous, disjoint height ranges of one tensor, the
  distributed two-round algorithm of \<^verbatim>\<open>PatchGroupNorm.forward\<close> returns on every worker,
  and the mean and variance of every (batch, group) pair that each worker computes equal
  the mean and variance of the unsharded group normalisation of the reassembled tensor
  \<open>hcat xs\<close>. Consequently each worker's output is its height slice of the unsharded
  layer's output. Arithmetic is exact, so the equality holds without a tolerance.
\<close>

theorem C1_distributed_equals_unsharded:
  assumes ok: "shards_ok m B W xs" and aff: "affine_ok m" and e: "0 < eps m"
  shows "\<exists>ss ys full.
           PGN_moments m xs = ([Gather_height, Gather_partial_sum, Gather_partial_var], Inr ss)
         \<and> PatchGroupNorm_forward m xs
             = ([Gather_height, Gather_partial_sum, Gather_partial_var], Inr ys)
         \<and> GroupNorm_forward m (hcat xs) = Inr full
         \<and> length ss = length xs \<and> length ys = length xs
         \<and> (\<forall>r<length xs.
               (\<forall>b<B. \<forall>g<num_groups m.
                   sval (mo_E (ss ! r)) b g = group_mean (hcat xs) (num_groups m) b g
                 \<and> sval (mo_var (ss ! r)) b g = group_var (hcat xs) (num_groups m) b g)
             \<and> dimB (ys ! r) = dimB (xs ! r) \<and> dimC (ys ! r) = dimC (xs ! r)
             \<and> dimH (ys ! r) = dimH (xs ! r) \<and> dimW (ys ! r) = dimW (xs ! r)
             \<and> (\<forall>b<B. \<forall>c<num_channels m. \<forall>h<dimH (xs ! r). \<forall>w<W.
                   elt (ys ! r) b c h w = elt full b c (row_offset xs r + h) w))"
proof -
  from aff obtain wt bs where wb: "weight m = Some wt" "bias m = Some bs"
    "length wt = num_channels m" "length bs = num_channels m"
    by (rule affine_okD)
  note g = shards_okG[OF ok] and hd = hcat_dims[OF ok]
  let ?G = "num_groups m" and ?K = "num_channels m div num_groups m"
  let ?S = "\<lambda>x. \<lparr>mo_x = gview m x, mo_E = dist_E m B W xs, mo_var = dist_var m B W xs\<rparr>"
  obtain full where full: "GroupNorm_forward m (hcat xs) = Inr full"
    and fe: "\<And>c b h w. c < num_channels m \<Longrightarrow> elt full b c h w =
                 (hcat_elt xs b c h w - group_mean (hcat xs) ?G b (c div ?K))
                   / sqrt (group_var (hcat xs) ?G b (c div ?K) + eps m) * wt ! c + bs ! c"
    using GroupNorm_forward_ok[of m "hcat xs" wt bs] g wb by (auto simp: hd)
  have out: "dimB (projr (PGN_apply m (?S x))) = dimB x \<and> dimC (projr (PGN_apply m (?S x))) = dimC x
           \<and> dimH (projr (PGN_apply m (?S x))) = dimH x \<and> dimW (projr (PGN_apply m (?S x))) = dimW x
           \<and> (\<forall>c<num_channels m. \<forall>b h w. elt (projr (PGN_apply m (?S x))) b c h w =
                 (elt x b c h w - group_mean (hcat xs) ?G b (c div ?K))
                   / sqrt (group_var (hcat xs) ?G b (c div ?K) + eps m) * wt ! c + bs ! c)"
    if x: "x \<in> set xs" for x
    using PGN_apply_ok[of x m wt bs "dist_E m B W xs" "dist_var m B W xs"]
      shards_okD[OF ok x] g wb
    by (auto simp: dist_E_eq_mean[OF ok] dist_var_eq_var[OF ok])
  show ?thesis
  proof (intro exI conjI allI impI)
    show "PGN_moments m xs
            = ([Gather_height, Gather_partial_sum, Gather_partial_var], Inr (map ?S xs))"
      by (rule PGN_moments_ok[OF ok])
    show "PatchGroupNorm_forward m xs
            = ([Gather_height, Gather_partial_sum, Gather_partial_var],
               Inr (map (\<lambda>x. projr (PGN_apply m (?S x))) xs))"
      by (rule PatchGroupNorm_forward_ok[OF ok aff])
    show "GroupNorm_forward m (hcat xs) = Inr full" by (rule full)
  next
    fix r b g assume "r < length xs"
    then show "sval (mo_E (map ?S xs ! r)) b g = group_mean (hcat xs) ?G b g"
      and "sval (mo_var (map ?S xs ! r)) b g = group_var (hcat xs) ?G b g"
      by (simp_all add: dist_E_eq_mean[OF ok] dist_var_eq_var[OF ok])
  next
    fix r assume r: "r < length xs"
    then have x: "xs ! r \<in> set xs" by simp
    from out[OF x] r
    show "dimB (map (\<lambda>x. projr (PGN_apply m (?S x))) xs ! r) = dimB (xs ! r)"
      and "dimC (map (\<lambda>x. projr (PGN_apply m (?S x))) xs ! r) = dimC (xs ! r)"
      and "dimH (map (\<lambda>x. projr (PGN_apply m (?S x))) xs ! r) = dimH (xs ! r)"
      and "dimW (map (\<lambda>x. projr (PGN_apply m (?S x))) xs ! r) = dimW (xs ! r)"
      by simp_all
    fix b c h w assume c: "c < num_channels m" and h: "h < dimH (xs ! r)"
    from out[OF x] r c
    show "elt (map (\<lambda>x. projr (PGN_apply m (?S x))) xs ! r) b c h w
            = elt full b c (row_offset xs r + h) w"
      by (simp add: fe[OF c] hcat_elt_slice[OF r h])
  qed simp_all
qed

lemma scenario_ok:
  "shards_ok scenario_layer 1 4 [shard_A, shard_B]" "affine_ok scenario_layer"
  "0 < eps scenario_layer"
  by (simp_all add: shards_ok_def affine_ok_def scenario_layer_def shard_A_def shard_B_def)

text \<open>
  The hypotheses of C1 hold in the two-worker scenario; there worker B's moments are
  those of the full 4 x 4 image, and its element at row 1 is the element at row 3 of
  the unsharded output.
\<close>

theorem C1_witness:
  "shards_ok scenario_layer 1 4 [shard_A, shard_B] \<and> affine_ok scenario_layer
   \<and> 0 < eps scenario_layer
   \<and> (\<exists>ss ys full.
         PGN_moments scenario_layer [shard_A, shard_B]
           = ([Gather_height, Gather_partial_sum, Gather_partial_var], Inr ss)
       \<and> PatchGroupNorm_forward scenario_layer [shard_A, shard_B]
           = ([Gather_height, Gather_partial_sum, Gather_partial_var], Inr ys)
       \<and> GroupNorm_forward scenario_layer (hcat [shard_A, shard_B]) = Inr full
       \<and> sval (mo_E (ss ! 1)) 0 0 = group_mean (hcat [shard_A, shard_B]) 1 0 0
       \<and> sval (mo_var (ss ! 1)) 0 0 = group_var (hcat [shard_A, shard_B]) 1 0 0
       \<and> elt (ys ! 1) 0 0 1 2 = elt full 0 0 3 2)"
proof -
  have n: "num_groups scenario_layer = 1" "num_channels scenario_layer = 1"
    "dimH shard_B = 2" "row_offset [shard_A, shard_B] (Suc 0) = 2"
    by (simp_all add: scenario_layer_def shard_A_def shard_B_def row_offset_def)
  from C1_distributed_equals_unsharded[OF scenario_ok] show ?thesis
  proof (elim exE conjE)
    fix ss ys full
    assume run: "PGN_moments scenario_layer [shard_A, shard_B]
           = ([Gather_height, Gather_partial_sum, Gather_partial_var], Inr ss)"
      "PatchGroupNorm_forward scenario_layer [shard_A, shard_B]
           = ([Gather_height, Gather_partial_sum, Gather_partial_var], Inr ys)"
      "GroupNorm_forward scenario_layer (hcat [shard_A, shard_B]) = Inr full"
    assume every: "\<forall>r<length [shard_A, shard_B].
               (\<forall>b<1. \<forall>g<num_groups scenario_layer.
                   sval (mo_E (ss ! r)) b g
                     = group_mean (hcat [shard_A, shard_B]) (num_groups scenario_layer) b g
                 \<and> sval (mo_var (ss ! r)) b g
                     = group_var (hcat [shard_A, shard_B]) (num_groups scenario_layer) b g)
             \<and> dimB (ys ! r) = dimB ([shard_A, shard_B] ! r)
             \<and> dimC (ys ! r) = dimC ([shard_A, shard_B] ! r)
             \<and> dimH (ys ! r) = dimH ([shard_A, shard_B] ! r)
             \<and> dimW (ys ! r) = dimW ([shard_A, shard_B] ! r)
             \<and> (\<forall>b<1. \<forall>c<num_channels scenario_layer. \<forall>h<dimH ([shard_A, shard_B] ! r). \<forall>w<4.
                   elt (ys ! r) b c h w
                     = elt full b c (row_offset [shard_A, shard_B] r + h) w)"
    note r1 = every[rule_format, of 1]
    have m: "sval (mo_E (ss ! 1)) 0 0 = group_mean (hcat [shard_A, shard_B]) 1 0 0"
      and v: "sval (mo_var (ss ! 1)) 0 0 = group_var (hcat [shard_A, shard_B]) 1 0 0"
      using r1[THEN conjunct1, rule_format, of 0 0] by (simp_all add: n)
    have o: "elt (ys ! 1) 0 0 1 2 = elt full 0 0 3 2"
      using r1[THEN conjunct2, THEN conjunct2, THEN conjunct2, THEN conjunct2, THEN conjunct2,
               rule_format, of 0 0 1 2]
      by (simp add: n)
    from run m v o scenario_ok show ?thesis
      by (intro conjI exI[of _ ss] exI[of _ ys] exI[of _ full]) simp_all
  qed
qed

section \<open>Construction\<close>

text \<open>
  C9: constructing the layer with \<^verbatim>\<open>num_channels=10, num_groups=3\<close> fails with the
  configuration error at construction time; no layer exists on which a forward could be
  called.
\<close>

theorem C9_construction_10_3_fails:
  "PatchGroupNorm_init 3 10 e affine = Inl NotDivisible"
  by (simp add: PatchGroupNorm_init_def GroupNorm_init_def)

section \<open>The two-worker scenario, evaluated\<close>

lemma scenario_simps:
  "num_groups scenario_layer = 1" "num_channels scenario_layer = 1"
  "eps scenario_layer = 1 / 100000"
  "weight scenario_layer = Some [1]" "bias scenario_layer = Some [0]"
  "dimB shard_A = 1" "dimC shard_A = 1" "dimH shard_A = 2" "dimW shard_A = 4"
  "elt shard_A b c h w = 1"
  "dimB shard_B = 1" "dimC shard_B = 1" "dimH shard_B = 2" "dimW shard_B = 4"
  "elt shard_B b c h w = 3"
  by (simp_all add: scenario_layer_def shard_A_def shard_B_def)

lemma scenario_E:
  "sval (dist_E scenario_layer 1 4 [shard_A, shard_B]) b g = 2"
  "sval (dist_E scenario_layer (Suc 0) 4 [shard_A, shard_B]) b g = 2"
  by (simp_all add: dist_E_def stat_div_def stack_sum_def sum_to_size5_def gview_def
        dist_nelements_def scenario_simps)

lemma scenario_var:
  "sval (dist_var scenario_layer 1 4 [shard_A, shard_B]) b g = 1"
  "sval (dist_var scenario_layer (Suc 0) 4 [shard_A, shard_B]) b g = 1"
  by (simp_all add: dist_var_def scenario_E stat_div_def stack_sum_def
        sum_to_size5_def sq_dev5_def gview_def dist_nelements_def scenario_simps)

lemma scenario_out:
  assumes x: "x = shard_A \<or> x = shard_B"
  shows "\<exists>y. PGN_apply scenario_layer
               \<lparr>mo_x = gview scenario_layer x, mo_E = dist_E scenario_layer 1 4 [shard_A, shard_B],
                mo_var = dist_var scenario_layer 1 4 [shard_A, shard_B]\<rparr> = Inr y
           \<and> (\<forall>b h w. elt y b 0 h w = (elt x b 0 h w - 2) / sqrt (1 + 1 / 100000))"
proof -
  have "\<exists>y. PGN_apply scenario_layer
               \<lparr>mo_x = gview scenario_layer x, mo_E = dist_E scenario_layer 1 4 [shard_A, shard_B],
                mo_var = dist_var scenario_layer 1 4 [shard_A, shard_B]\<rparr> = Inr y
           \<and> dimB y = dimB x \<and> dimC y = dimC x \<and> dimH y = dimH x \<and> dimW y = dimW x
           \<and> (\<forall>c<dimC x. \<forall>b h w. elt y b c h w =
                 (elt x b c h w - sval (dist_E scenario_layer 1 4 [shard_A, shard_B]) b
                                     (c div (dimC x div num_groups scenario_layer)))
                   / sqrt (sval (dist_var scenario_layer 1 4 [shard_A, shard_B]) b
                            (c div (dimC x div num_groups scenario_layer)) + eps scenario_layer)
                   * [1] ! c + [0] ! c)"
    by (rule PGN_apply_ok) (use x in \<open>auto simp: scenario_simps\<close>)
  then obtain y where y: "PGN_apply scenario_layer
               \<lparr>mo_x = gview scenario_layer x, mo_E = dist_E scenario_layer 1 4 [shard_A, shard_B],
                mo_var = dist_var scenario_layer 1 4 [shard_A, shard_B]\<rparr> = Inr y"
     and e: "\<forall>c<dimC x. \<forall>b h w. elt y b c h w =
                 (elt x b c h w - sval (dist_E scenario_layer 1 4 [shard_A, shard_B]) b
                                     (c div (dimC x div num_groups scenario_layer)))
                   / sqrt (sval (dist_var scenario_layer 1 4 [shard_A, shard_B]) b
                            (c div (dimC x div num_groups scenario_layer)) + eps scenario_layer)
                   * [1] ! c + [0] ! c"
    by (elim exE conjE)
  have c: "0 < dimC x" using x by (auto simp: scenario_simps)
  have "elt y b 0 h w = (elt x b 0 h w - 2) / sqrt (1 + 1 / 100000)" for b h w
    using e[rule_format, OF c, of b h w]
    by (simp add: scenario_E scenario_var scenario_simps(3))
  with y show ?thesis by blast
qed

text \<open>
  C5: in the two-worker scenario (one group, one channel, \<^verbatim>\<open>eps = 1e-5\<close>, worker A
  holding rows 0-1 filled with 1.0 and worker B rows 2-3 filled with 3.0 of a 4 x 4
  image) \<^verbatim>\<open>PatchGroupNorm.forward\<close> computes the global mean 2 and the global
  population variance 1 on both workers, and each worker's output is
  \<open>(local value - 2) / sqrt (1 + 1e-5)\<close> at every position of its shard.
\<close>

theorem C5_two_worker_scenario:
  "\<exists>ss ys.
       PGN_moments scenario_layer [shard_A, shard_B]
         = ([Gather_height, Gather_partial_sum, Gather_partial_var], Inr ss)
     \<and> PatchGroupNorm_forward scenario_layer [shard_A, shard_B]
         = ([Gather_height, Gather_partial_sum, Gather_partial_var], Inr ys)
     \<and> length ss = 2 \<and> length ys = 2
     \<and> sval (mo_E (ss ! 0)) 0 0 = 2 \<and> sval (mo_var (ss ! 0)) 0 0 = 1
     \<and> sval (mo_E (ss ! 1)) 0 0 = 2 \<and> sval (mo_var (ss ! 1)) 0 0 = 1
     \<and> (\<forall>h<2. \<forall>w<4. elt (ys ! 0) 0 0 h w = (1 - 2) / sqrt (1 + 1 / 100000))
     \<and> (\<forall>h<2. \<forall>w<4. elt (ys ! 1) 0 0 h w = (3 - 2) / sqrt (1 + 1 / 100000))"
proof -
  let ?S = "\<lambda>x. \<lparr>mo_x = gview scenario_layer x,
                  mo_E = dist_E scenario_layer 1 4 [shard_A, shard_B],
                  mo_var = dist_var scenario_layer 1 4 [shard_A, shard_B]\<rparr>"
  from scenario_out[of shard_A] obtain ya where
    ya: "PGN_apply scenario_layer (?S shard_A) = Inr ya"
    and ea: "\<And>b h w. elt ya b 0 h w = (elt shard_A b 0 h w - 2) / sqrt (1 + 1 / 100000)"
    by auto
  from scenario_out[of shard_B] obtain yb where
    yb: "PGN_apply scenario_layer (?S shard_B) = Inr yb"
    and eb: "\<And>b h w. elt yb b 0 h w = (elt shard_B b 0 h w - 2) / sqrt (1 + 1 / 100000)"
    by auto
  have m: "PGN_moments scenario_layer [shard_A, shard_B]
         = ([Gather_height, Gather_partial_sum, Gather_partial_var],
            Inr [?S shard_A, ?S shard_B])"
    using PGN_moments_ok[OF scenario_ok(1)] by (simp del: One_nat_def)
  have f: "PatchGroupNorm_forward scenario_layer [shard_A, shard_B]
         = ([Gather_height, Gather_partial_sum, Gather_partial_var], Inr [ya, yb])"
    using PatchGroupNorm_forward_ok[OF scenario_ok(1,2)] by (simp add: ya yb del: One_nat_def)
  show ?thesis
    by (intro exI[of _ "[?S shard_A, ?S shard_B]"] exI[of _ "[ya, yb]"] conjI m f)
       (simp_all add: scenario_E scenario_var ea eb scenario_simps)
qed

text \<open>The scenario's outputs read off the run: one element of each worker's shard.\<close>

theorem C5_witness:
  "elt (projr (snd (PatchGroupNorm_forward scenario_layer [shard_A, shard_B])) ! 0) 0 0 1 3
     = (1 - 2) / sqrt (1 + 1 / 100000)
   \<and> elt (projr (snd (PatchGroupNorm_forward scenario_layer [shard_A, shard_B])) ! 1) 0 0 0 2
     = (3 - 2) / sqrt (1 + 1 / 100000)"
  using C5_two_worker_scenario by auto

section \<open>Verification of PatchAdaGroupNorm\<close>

lemma ada_okD:
  assumes "ada_shards_ok m C W inputs" "xe \<in> set inputs"
  shows "dimB (fst xe) = 1" "dimC (fst xe) = C" "dimW (fst xe) = W" "0 < dimH (fst xe)"
        "rows (snd xe) = 1" "cols (snd xe) = in_features (ada_linear m)"
  using assms by (auto simp: ada_shards_ok_def list_all_iff)

lemma ada_okG:
  assumes "ada_shards_ok m C W inputs"
  shows "inputs \<noteq> []" "0 < C" "0 < W" "ada_num_groups m = 1"
        "out_features (ada_linear m) = 2 * C"
  using assms by (auto simp: ada_shards_ok_def)

lemma conditioning_ok:
  assumes "cols emb = in_features (ada_linear m)" "out_features (ada_linear m) = 2 * C" "0 < C"
  shows "\<exists>scale shift. conditioning m emb = Inr (scale, shift)
           \<and> rows scale = rows emb \<and> cols scale = C
           \<and> rows shift = rows emb \<and> cols shift = C"
  using assms
  by (auto simp: conditioning_def linear_forward_def chunk2_def Let_def split: option.splits)

lemma PAGN_cond_ok:
  assumes ok: "ada_shards_ok m C W inputs" and xe: "xe \<in> set inputs"
  shows "PAGN_cond m xe = Inr (ada_cond m xe)"
    and "ac_x (ada_cond m xe) = fst xe"
    and "rows (ac_scale (ada_cond m xe)) = 1" and "cols (ac_scale (ada_cond m xe)) = C"
    and "rows (ac_shift (ada_cond m xe)) = 1" and "cols (ac_shift (ada_cond m xe)) = C"
proof -
  from conditioning_ok[OF ada_okD(6)[OF ok xe] ada_okG(5)[OF ok] ada_okG(2)[OF ok]]
  obtain scale shift where c: "conditioning m (snd xe) = Inr (scale, shift)"
    and d: "rows scale = rows (snd xe)" "cols scale = C"
           "rows shift = rows (snd xe)" "cols shift = C"
    by blast
  have p: "PAGN_cond m xe = Inr \<lparr>ac_x = fst xe, ac_scale = scale, ac_shift = shift\<rparr>"
    by (simp add: PAGN_cond_def c)
  show "PAGN_cond m xe = Inr (ada_cond m xe)"
    and "ac_x (ada_cond m xe) = fst xe"
    and "rows (ac_scale (ada_cond m xe)) = 1" and "cols (ac_scale (ada_cond m xe)) = C"
    and "rows (ac_shift (ada_cond m xe)) = 1" and "cols (ac_shift (ada_cond m xe)) = C"
    using d ada_okD(5)[OF ok xe] by (simp_all add: ada_cond_def p)
qed

lemma sum_to_size2_single:
  "sum_to_size2 x 1 1 = Inr \<lparr>sB = 1, sG = 1, sval = (\<lambda>i j. ada_total (\<lambda>v. v) x)\<rparr>"
  by (simp add: sum_to_size2_def ada_total_def)

lemma sum_to_size2_sq_dev:
  "sum_to_size2 (sq_dev4 x E) 1 1 = Inr \<lparr>sB = 1, sG = 1, sval = (\<lambda>i j. ada_total (\<lambda>v. (v - E)\<^sup>2) x)\<rparr>"
  by (simp add: sum_to_size2_def ada_total_def sq_dev4_def)

lemma tensor_sum_single:
  assumes "\<And>p. p \<in> set ps \<Longrightarrow> sB p = 1 \<and> sG p = 1"
  shows "tensor_sum ps = Inr (\<Sum>p\<leftarrow>ps. sval p 0 0)"
  using assms by (simp add: tensor_sum_def list_all_iff)

lemma PAGN_sums_ok:
  assumes ok: "ada_shards_ok m C W inputs" and xe: "xe \<in> set inputs"
  shows "PAGN_sums m (ada_cond m xe) (map (\<lambda>xe. dimH (fst xe)) inputs) =
           Inr \<lparr>as_in = ada_cond m xe, as_nelements = ada_nelements C W inputs,
                as_partial_sum = \<lparr>sB = 1, sG = 1, sval = (\<lambda>i j. ada_total (\<lambda>v. v) (fst xe))\<rparr>\<rparr>"
  using ada_okD[OF ok xe] ada_okG[OF ok] PAGN_cond_ok(2)[OF ok xe]
  by (simp add: PAGN_sums_def Let_def sum_to_size2_single ada_nelements_def del: One_nat_def)

lemma PAGN_moments_ok:
  assumes ok: "ada_shards_ok m C W inputs"
  shows "PAGN_moments m inputs =
           ([Gather_height, Gather_partial_sum, Gather_partial_var],
            Inr (map (\<lambda>xe. \<lparr>av_in = ada_cond m xe, av_E = ada_E C W inputs,
                              av_var = ada_var C W inputs\<rparr>) inputs))"
proof -
  define S where "S = (\<lambda>xe. \<lparr>as_in = ada_cond m xe, as_nelements = ada_nelements C W inputs,
                as_partial_sum = \<lparr>sB = 1, sG = 1, sval = (\<lambda>i j. ada_total (\<lambda>v. v) (fst xe))\<rparr>\<rparr>)"
  define M where "M = (\<lambda>xe. \<lparr>am_in = ada_cond m xe, am_nelements = ada_nelements C W inputs,
                am_E = ada_E C W inputs,
                am_partial_var = \<lparr>sB = 1, sG = 1,
                   sval = (\<lambda>i j. ada_total (\<lambda>v. (v - ada_E C W inputs)\<^sup>2) (fst xe))\<rparr>\<rparr>)"
  define R where "R = (\<lambda>xe. \<lparr>av_in = ada_cond m xe, av_E = ada_E C W inputs,
                              av_var = ada_var C W inputs\<rparr>)"
  have s0: "all_ranks (map (PAGN_cond m) inputs) = Inr (map (ada_cond m) inputs)"
  proof -
    have e: "map (PAGN_cond m) inputs = map (\<lambda>xe. Inr (ada_cond m xe)) inputs"
      using PAGN_cond_ok(1)[OF ok] by simp
    show ?thesis unfolding e by (rule all_ranks_Inr)
  qed
  have hl: "map (\<lambda>s. dimH (ac_x s)) (map (ada_cond m) inputs) = map (\<lambda>xe. dimH (fst xe)) inputs"
    using PAGN_cond_ok(2)[OF ok] by simp
  have s1: "all_ranks (map2 (PAGN_sums m) (map (ada_cond m) inputs)
                         (all_gather (map (\<lambda>xe. dimH (fst xe)) inputs))) = Inr (map S inputs)"
  proof -
    have e: "map2 (PAGN_sums m) (map (ada_cond m) inputs)
             (all_gather (map (\<lambda>xe. dimH (fst xe)) inputs)) = map (\<lambda>xe. Inr (S xe)) inputs"
      unfolding map2_all_gather' S_def using PAGN_sums_ok[OF ok] by simp
    show ?thesis unfolding e by (rule all_ranks_Inr)
  qed
  have ps: "map as_partial_sum (map S inputs)
              = map (\<lambda>xe. \<lparr>sB = 1, sG = 1, sval = (\<lambda>i j. ada_total (\<lambda>v. v) (fst xe))\<rparr>) inputs"
    by (simp add: S_def comp_def)
  have g1: "all_gather_stat (map as_partial_sum (map S inputs))
              = Inr (all_gather (map as_partial_sum (map S inputs)))"
    unfolding ps by (rule all_gather_stat_ok[where B = 1 and G = 1]) auto
  have ts1: "tensor_sum (map (\<lambda>xe. \<lparr>sB = 1, sG = 1,
                 sval = (\<lambda>i j. ada_total (\<lambda>v. v) (fst xe))\<rparr>) inputs)
               = Inr (\<Sum>xe\<leftarrow>inputs. ada_total (\<lambda>v. v) (fst xe))"
    by (subst tensor_sum_single) (auto simp: comp_def)
  have m2: "PAGN_mean m (S xe) (map (\<lambda>xe. \<lparr>sB = 1, sG = 1,
                 sval = (\<lambda>i j. ada_total (\<lambda>v. v) (fst xe))\<rparr>) inputs) = Inr (M xe)"
    if xe: "xe \<in> set inputs" for xe
    using ada_okD[OF ok xe] ada_okG[OF ok] PAGN_cond_ok(2)[OF ok xe]
    by (simp add: PAGN_mean_def Let_def ts1 S_def M_def sum_to_size2_sq_dev ada_E_def
          del: One_nat_def)
  have s2: "all_ranks (map2 (PAGN_mean m) (map S inputs)
                         (all_gather (map as_partial_sum (map S inputs)))) = Inr (map M inputs)"
  proof -
    have e: "map2 (PAGN_mean m) (map S inputs) (all_gather (map as_partial_sum (map S inputs)))
            = map (\<lambda>xe. Inr (M xe)) inputs"
      unfolding ps map2_all_gather' using m2 by simp
    show ?thesis unfolding e by (rule all_ranks_Inr)
  qed
  have pv: "map am_partial_var (map M inputs)
              = map (\<lambda>xe. \<lparr>sB = 1, sG = 1,
                   sval = (\<lambda>i j. ada_total (\<lambda>v. (v - ada_E C W inputs)\<^sup>2) (fst xe))\<rparr>) inputs"
    by (simp add: M_def comp_def)
  have g2: "all_gather_stat (map am_partial_var (map M inputs))
              = Inr (all_gather (map am_partial_var (map M inputs)))"
    unfolding pv by (rule all_gather_stat_ok[where B = 1 and G = 1]) auto
  have ts2: "tensor_sum (map (\<lambda>xe. \<lparr>sB = 1, sG = 1,
                   sval = (\<lambda>i j. ada_total (\<lambda>v. (v - ada_E C W inputs)\<^sup>2) (fst xe))\<rparr>) inputs)
               = Inr (\<Sum>xe\<leftarrow>inputs. ada_total (\<lambda>v. (v - ada_E C W inputs)\<^sup>2) (fst xe))"
    by (subst tensor_sum_single) (auto simp: comp_def)
  have s3: "all_ranks (map2 PAGN_var (map M inputs)
                         (all_gather (map am_partial_var (map M inputs)))) = Inr (map R inputs)"
  proof -
    have e: "map2 PAGN_var (map M inputs) (all_gather (map am_partial_var (map M inputs)))
            = map (\<lambda>xe. Inr (R xe)) inputs"
      unfolding pv map2_all_gather'
      by (simp add: PAGN_var_def ts2 M_def R_def ada_var_def del: One_nat_def)
    show ?thesis unfolding e by (rule all_ranks_Inr)
  qed
  show ?thesis
    unfolding PAGN_moments_def R_def[symmetric]
    by (simp add: bind_run_def post_def local_step_def s0 hl s1 g1 s2 g2 s3 del: map_map)
qed

lemma scale_shift_ok:
  assumes "rows scale = dimB x" "cols scale = dimC x" "rows shift = dimB x" "cols shift = dimC x"
  shows "\<exists>y. scale_shift x scale shift = Inr y
           \<and> dimB y = dimB x \<and> dimC y = dimC x \<and> dimH y = dimH x \<and> dimW y = dimW x
           \<and> (\<forall>b<dimB x. \<forall>c<dimC x. \<forall>h w.
                 elt y b c h w = elt x b c h w * (1 + mval scale b c) + mval shift b c)"
  using assms by (simp add: scale_shift_def cond_op_def bdim_def bidx_in_range)

lemma PAGN_apply_ok:
  assumes ok: "ada_shards_ok m C W inputs" and xe: "xe \<in> set inputs"
  shows "\<exists>y. PAGN_apply m \<lparr>av_in = ada_cond m xe, av_E = E, av_var = V\<rparr> = Inr y
           \<and> dimB y = dimB (fst xe) \<and> dimC y = dimC (fst xe)
           \<and> dimH y = dimH (fst xe) \<and> dimW y = dimW (fst xe)
           \<and> (\<forall>c<C. \<forall>h w. elt y 0 c h w =
                 (elt (fst xe) 0 c h w - E) / sqrt (V + ada_eps m)
                   * (1 + mval (ac_scale (ada_cond m xe)) 0 c) + mval (ac_shift (ada_cond m xe)) 0 c)"
proof -
  note d = ada_okD[OF ok xe] and c = PAGN_cond_ok[OF ok xe]
  let ?xn = "normalize4 (fst xe) E V (ada_eps m)"
  have "\<exists>y. scale_shift ?xn (ac_scale (ada_cond m xe)) (ac_shift (ada_cond m xe)) = Inr y
           \<and> dimB y = dimB ?xn \<and> dimC y = dimC ?xn \<and> dimH y = dimH ?xn \<and> dimW y = dimW ?xn
           \<and> (\<forall>b<dimB ?xn. \<forall>c<dimC ?xn. \<forall>h w.
                 elt y b c h w = elt ?xn b c h w * (1 + mval (ac_scale (ada_cond m xe)) b c)
                                   + mval (ac_shift (ada_cond m xe)) b c)"
    by (rule scale_shift_ok) (simp_all add: normalize4_def c d)
  then show ?thesis
    by (simp add: PAGN_apply_def c(2) normalize4_def d)
qed

lemma PatchAdaGroupNorm_forward_ok:
  assumes ok: "ada_shards_ok m C W inputs"
  shows "PatchAdaGroupNorm_forward m inputs =
           ([Gather_height, Gather_partial_sum, Gather_partial_var],
            Inr (map (\<lambda>xe. projr (PAGN_apply m \<lparr>av_in = ada_cond m xe, av_E = ada_E C W inputs,
                                                   av_var = ada_var C W inputs\<rparr>)) inputs))"
proof -
  have "\<exists>y. PAGN_apply m \<lparr>av_in = ada_cond m xe, av_E = ada_E C W inputs,
                           av_var = ada_var C W inputs\<rparr> = Inr y" if "xe \<in> set inputs" for xe
    using PAGN_apply_ok[OF ok that] by blast
  then have "all_ranks (map (\<lambda>xe. PAGN_apply m \<lparr>av_in = ada_cond m xe, av_E = ada_E C W inputs,
                           av_var = ada_var C W inputs\<rparr>) inputs)
               = Inr (map (\<lambda>xe. projr (PAGN_apply m \<lparr>av_in = ada_cond m xe,
                        av_E = ada_E C W inputs, av_var = ada_var C W inputs\<rparr>)) inputs)"
    by (rule all_ranks_projr)
  then show ?thesis
    unfolding PatchAdaGroupNorm_forward_def PAGN_moments_ok[OF ok]
    by (simp add: bind_run_def local_step_def comp_def)
qed










section \<open>Round 1: the height and the mean\<close>

text \<open>
  Round 1 of \<^verbatim>\<open>PatchGroupNorm.forward\<close>: every worker ends with the same group mean,
  the sum over all ranks of the per-rank partial sums divided by
  \<^verbatim>\<open>channels_per_group * height * width\<close>, where the height is the sum of the gathered
  local heights.
\<close>

lemma PatchGroupNorm_round1:
  assumes ok: "shards_ok m B W xs"
  shows "\<exists>ss. PGN_moments m xs
                = ([Gather_height, Gather_partial_sum, Gather_partial_var], Inr ss)
           \<and> length ss = length xs
           \<and> (\<forall>r<length xs. \<forall>b g.
                 sval (mo_E (ss ! r)) b g =
                   (\<Sum>x\<leftarrow>xs. \<Sum>k<num_channels m div num_groups m. \<Sum>h<dimH x. \<Sum>w<W.
                        elt x b (g * (num_channels m div num_groups m) + k) h w)
                     / real (num_channels m div num_groups m * sum_list (map dimH xs) * W))"
proof -
  have e: "sval (dist_E m B W xs) b g =
             (\<Sum>x\<leftarrow>xs. \<Sum>k<num_channels m div num_groups m. \<Sum>h<dimH x. \<Sum>w<W.
                        elt x b (g * (num_channels m div num_groups m) + k) h w)
                     / real (num_channels m div num_groups m * sum_list (map dimH xs) * W)" for b g
  proof -
    have "(\<Sum>x\<leftarrow>xs. sval (sum_to_size5 (gview m x)) b g)
          = (\<Sum>x\<leftarrow>xs. \<Sum>k<num_channels m div num_groups m. \<Sum>h<dimH x. \<Sum>w<W.
                elt x b (g * (num_channels m div num_groups m) + k) h w)"
      by (rule arg_cong[where f = sum_list], rule map_cong)
         (simp_all add: sum_to_size5_def gview_def shards_okD[OF ok])
    then show ?thesis
      by (simp add: dist_E_def stat_div_def stack_sum_def dist_nelements_def comp_def)
  qed
  show ?thesis
    unfolding PGN_moments_ok[OF ok] by (simp add: e)
qed

text \<open>
  C2: round 1 yields, on every worker, the global height and the group mean \<open>E\<close> as the
  summed per-rank \<^verbatim>\<open>[batch, G]\<close> partial sums over the element count.
  \<^verbatim>\<open>PatchGroupNorm.forward\<close> does so (\<open>PatchGroupNorm_round1\<close>).
  \<^verbatim>\<open>PatchAdaGroupNorm.forward\<close> does not: with two groups its round 1 raises. On a
  shard of shape \<^verbatim>\<open>[1, 4, 2, 3]\<close> line 77 raises, because \<^verbatim>\<open>sum_to_size(1, 2)\<close> is
  applied to the 4-D tensor and 2 is not the width; on a shard of shape
  \<^verbatim>\<open>[1, 4, 2, 2]\<close> line 80 raises, because \<^verbatim>\<open>torch.tensor\<close> is given tensors of two
  elements. No mean is produced in either run (see also \<open>PAGN_returns_only_single\<close>).
\<close>

theorem C2_PatchAdaGroupNorm_round1_raises:
  "PatchAdaGroupNorm_forward (ada_layer 4 2 (1 / 100000)) [(channel_shard 4 2 3, unit_emb)]
     = ([Gather_height], Inl NotExpandable)
   \<and> PatchAdaGroupNorm_forward (ada_layer 4 2 (1 / 100000)) [(channel_shard 4 2 2, unit_emb)]
     = ([Gather_height, Gather_partial_sum], Inl NotScalar)"
  by (simp add: PatchAdaGroupNorm_forward_def PAGN_moments_def bind_run_def local_step_def
        post_def PAGN_cond_def conditioning_def linear_forward_def chunk2_def Let_def
        ada_layer_def channel_shard_def unit_emb_def all_gather_def all_gather_stat_def
        same_shape_def PAGN_sums_def sum_to_size2_def PAGN_mean_def tensor_sum_def)

section \<open>Collective calls per forward\<close>

lemma scenario_ada_ok:
  "ada_shards_ok scenario_ada 1 4 [(shard_A, unit_emb), (shard_B, unit_emb)]"
  by (simp add: ada_shards_ok_def scenario_ada_def ada_layer_def unit_emb_def scenario_simps)

text \<open>
  C7, as stated, fails: the forward of the two-worker scenario returns after three
  collective calls, not two.
\<close>

theorem C7_counterexample:
  "fst (PatchGroupNorm_forward scenario_layer [shard_A, shard_B])
     = [Gather_height, Gather_partial_sum, Gather_partial_var]
   \<and> \<not> isl (snd (PatchGroupNorm_forward scenario_layer [shard_A, shard_B]))
   \<and> length (fst (PatchGroupNorm_forward scenario_layer [shard_A, shard_B])) \<noteq> 2"
  by (simp add: PatchGroupNorm_forward_ok[OF scenario_ok(1,2)])

text \<open>
  C7, amended: every forward call of a distributed variant that returns has posted
  exactly three blocking collective calls on each worker, in this order: the height
  exchange, the exchange of the partial sums (mean) and the exchange of the partial sums
  of squared deviations (variance).
\<close>

theorem C7_three_collectives:
  "(PatchGroupNorm_forward m xs = (tr, Inr ys)
      \<longrightarrow> tr = [Gather_height, Gather_partial_sum, Gather_partial_var])
   \<and> (PatchAdaGroupNorm_forward a inputs = (tr', Inr ys')
      \<longrightarrow> tr' = [Gather_height, Gather_partial_sum, Gather_partial_var])"
  by (auto simp: PatchGroupNorm_forward_def PGN_moments_def PatchAdaGroupNorm_forward_def
        PAGN_moments_def bind_run_def post_def local_step_def
      split: sum.splits prod.splits)

text \<open>Both variants return on the two-worker scenario, after these three calls.\<close>

theorem C7_witness:
  "fst (PatchGroupNorm_forward scenario_layer [shard_A, shard_B])
     = [Gather_height, Gather_partial_sum, Gather_partial_var]
   \<and> fst (PatchAdaGroupNorm_forward scenario_ada [(shard_A, unit_emb), (shard_B, unit_emb)])
     = [Gather_height, Gather_partial_sum, Gather_partial_var]"
proof -
  obtain tr ys where p: "PatchGroupNorm_forward scenario_layer [shard_A, shard_B] = (tr, Inr ys)"
    using PatchGroupNorm_forward_ok[OF scenario_ok(1,2)] by blast
  obtain tr' ys' where q: "PatchAdaGroupNorm_forward scenario_ada
                             [(shard_A, unit_emb), (shard_B, unit_emb)] = (tr', Inr ys')"
    using PatchAdaGroupNorm_forward_ok[OF scenario_ada_ok] by blast
  from C7_three_collectives[of scenario_layer "[shard_A, shard_B]" tr ys
         scenario_ada "[(shard_A, unit_emb), (shard_B, unit_emb)]" tr' ys'] p q
  show ?thesis by simp
qed

section \<open>Group isolation\<close>

lemma sum_list_map_nth_cong:
  fixes f g :: "'a \<Rightarrow> real"
  assumes "length xs = length ys" "\<And>r. r < length xs \<Longrightarrow> f (xs ! r) = g (ys ! r)"
  shows "(\<Sum>x\<leftarrow>xs. f x) = (\<Sum>y\<leftarrow>ys. g y)"
proof -
  have "map f xs = map g ys"
    by (rule nth_equalityI) (simp_all add: assms)
  then show ?thesis by simp
qed

text \<open>
  C6: two runs of the distributed algorithm on shards of the same shapes that differ
  only in elements whose channel lies in group \<open>g\<close> return the same mean and the same
  variance for every other group \<open>g'\<close>, on every worker and for every batch index.
\<close>

theorem C6_group_isolation:
  assumes ok: "shards_ok m B W xs" and ok': "shards_ok m B W xs'"
    and len: "length xs' = length xs"
    and same: "\<forall>r<length xs. dimH (xs' ! r) = dimH (xs ! r)
                 \<and> (\<forall>b<B. \<forall>c<num_channels m. \<forall>h<dimH (xs ! r). \<forall>w<W.
                       c div (num_channels m div num_groups m) \<noteq> g
                       \<longrightarrow> elt (xs' ! r) b c h w = elt (xs ! r) b c h w)"
    and other: "g' \<noteq> g" "g' < num_groups m"
  shows "\<exists>ss ss'.
           PGN_moments m xs = ([Gather_height, Gather_partial_sum, Gather_partial_var], Inr ss)
         \<and> PGN_moments m xs' = ([Gather_height, Gather_partial_sum, Gather_partial_var], Inr ss')
         \<and> length ss = length xs \<and> length ss' = length xs
         \<and> (\<forall>r<length xs. \<forall>b<B.
               sval (mo_E (ss' ! r)) b g' = sval (mo_E (ss ! r)) b g'
             \<and> sval (mo_var (ss' ! r)) b g' = sval (mo_var (ss ! r)) b g')"
proof -
  let ?K = "num_channels m div num_groups m"
  have K: "0 < ?K"
    using shards_okG[OF ok] by (auto simp: dvd_def)
  have ch: "(g' * ?K + k) div ?K \<noteq> g" if "k < ?K" for k
    using that other(1) K by simp
  have GK: "num_groups m * ?K = num_channels m"
    using shards_okG(5)[OF ok] by simp
  have inC: "g' * ?K + k < num_channels m" if "k < ?K" for k
  proof -
    have "g' * ?K + k < g' * ?K + ?K" using that by simp
    also have "\<dots> = (g' + 1) * ?K" by simp
    also have "\<dots> \<le> num_groups m * ?K"
      using other(2) by (intro mult_le_mono1) simp
    finally show ?thesis using GK by simp
  qed
  have hs: "map dimH xs' = map dimH xs"
    by (rule nth_equalityI) (use len same in auto)
  have n: "dist_nelements m W xs' = dist_nelements m W xs"
    by (simp add: dist_nelements_def hs)
  have part: "(\<Sum>k<?K. \<Sum>h<dimH (xs' ! r). \<Sum>w<W. \<phi> (elt (xs' ! r) b (g' * ?K + k) h w))
            = (\<Sum>k<?K. \<Sum>h<dimH (xs ! r). \<Sum>w<W. \<phi> (elt (xs ! r) b (g' * ?K + k) h w))"
    if r: "r < length xs" and b: "b < B" for r b and \<phi> :: "real \<Rightarrow> real"
  proof (rule sum.cong)
    fix k assume "k \<in> {..<?K}"
    then have k: "(g' * ?K + k) div ?K \<noteq> g" "g' * ?K + k < num_channels m"
      using ch inC by simp_all
    have H: "dimH (xs' ! r) = dimH (xs ! r)" using same r by simp
    have "elt (xs' ! r) b (g' * ?K + k) h w = elt (xs ! r) b (g' * ?K + k) h w"
      if "h < dimH (xs ! r)" "w < W" for h w
      using same[rule_format, OF r] b k that by simp
    then show "(\<Sum>h<dimH (xs' ! r). \<Sum>w<W. \<phi> (elt (xs' ! r) b (g' * ?K + k) h w))
            = (\<Sum>h<dimH (xs ! r). \<Sum>w<W. \<phi> (elt (xs ! r) b (g' * ?K + k) h w))"
      unfolding H by (intro sum.cong refl) simp
  qed simp
  have sums: "(\<Sum>x\<leftarrow>xs'. \<Sum>k<?K. \<Sum>h<dimH x. \<Sum>w<W. \<phi> (elt x b (g' * ?K + k) h w))
            = (\<Sum>x\<leftarrow>xs. \<Sum>k<?K. \<Sum>h<dimH x. \<Sum>w<W. \<phi> (elt x b (g' * ?K + k) h w))"
    if "b < B" for b and \<phi> :: "real \<Rightarrow> real"
    by (rule sum_list_map_nth_cong) (simp_all add: len part that)
  have unfoldE: "sval (dist_E m B W ys) b g' =
                   (\<Sum>x\<leftarrow>ys. \<Sum>k<?K. \<Sum>h<dimH x. \<Sum>w<W. elt x b (g' * ?K + k) h w)
                     / real (dist_nelements m W ys)"
    if "shards_ok m B W ys" for ys b
  proof -
    have "(\<Sum>x\<leftarrow>ys. sval (sum_to_size5 (gview m x)) b g')
          = (\<Sum>x\<leftarrow>ys. \<Sum>k<?K. \<Sum>h<dimH x. \<Sum>w<W. elt x b (g' * ?K + k) h w)"
      by (rule arg_cong[where f = sum_list], rule map_cong)
         (simp_all add: sum_to_size5_def gview_def shards_okD[OF that])
    then show ?thesis
      by (simp add: dist_E_def stat_div_def stack_sum_def comp_def)
  qed
  have E: "sval (dist_E m B W xs') b g' = sval (dist_E m B W xs) b g'" if "b < B" for b
    unfolding unfoldE[OF ok] unfoldE[OF ok'] n
    using sums[OF that, of "\<lambda>v. v"] by simp
  have unfoldV: "sval (dist_var m B W ys) b g' =
                   (\<Sum>x\<leftarrow>ys. \<Sum>k<?K. \<Sum>h<dimH x. \<Sum>w<W.
                       (elt x b (g' * ?K + k) h w - sval (dist_E m B W ys) b g')\<^sup>2)
                     / real (dist_nelements m W ys)"
    if "shards_ok m B W ys" for ys b
  proof -
    have "(\<Sum>x\<leftarrow>ys. sval (sum_to_size5 (sq_dev5 (gview m x) (dist_E m B W ys))) b g')
          = (\<Sum>x\<leftarrow>ys. \<Sum>k<?K. \<Sum>h<dimH x. \<Sum>w<W.
                (elt x b (g' * ?K + k) h w - sval (dist_E m B W ys) b g')\<^sup>2)"
      by (rule arg_cong[where f = sum_list], rule map_cong)
         (simp_all add: sum_to_size5_def sq_dev5_def gview_def shards_okD[OF that])
    then show ?thesis
      by (simp add: dist_var_def stat_div_def stack_sum_def comp_def)
  qed
  have V: "sval (dist_var m B W xs') b g' = sval (dist_var m B W xs) b g'" if "b < B" for b
    unfolding unfoldV[OF ok] unfoldV[OF ok'] n E[OF that]
    using sums[OF that, of "\<lambda>v. (v - sval (dist_E m B W xs) b g')\<^sup>2"] by simp
  show ?thesis
    unfolding PGN_moments_ok[OF ok] PGN_moments_ok[OF ok']
    by (simp add: len E V)
qed

lemma pair_ok: "shards_ok two_group_layer 1 1 [pair_shard v]"
  by (simp add: shards_ok_def two_group_layer_def pair_shard_def)

lemma pair_mean:
  "sval (dist_E two_group_layer 1 1 [pair_shard v]) 0 0 = v"
  by (simp add: dist_E_def stat_div_def stack_sum_def sum_to_size5_def gview_def
        dist_nelements_def two_group_layer_def pair_shard_def)

text \<open>
  Two groups of one channel each: changing channel 0 from 1 to 5 leaves the moments of
  group 1 as they are, and changes the mean of group 0.
\<close>

theorem C6_witness:
  "shards_ok two_group_layer 1 1 [pair_shard 1] \<and> shards_ok two_group_layer 1 1 [pair_shard 5]
   \<and> sval (mo_E (projr (snd (PGN_moments two_group_layer [pair_shard 5])) ! 0)) 0 1
       = sval (mo_E (projr (snd (PGN_moments two_group_layer [pair_shard 1])) ! 0)) 0 1
   \<and> sval (mo_var (projr (snd (PGN_moments two_group_layer [pair_shard 5])) ! 0)) 0 1
       = sval (mo_var (projr (snd (PGN_moments two_group_layer [pair_shard 1])) ! 0)) 0 1
   \<and> sval (mo_E (projr (snd (PGN_moments two_group_layer [pair_shard 5])) ! 0)) 0 0
       \<noteq> sval (mo_E (projr (snd (PGN_moments two_group_layer [pair_shard 1])) ! 0)) 0 0"
proof -
  have same: "\<forall>r<length [pair_shard 1]. dimH ([pair_shard 5] ! r) = dimH ([pair_shard 1] ! r)
                 \<and> (\<forall>b<1. \<forall>c<num_channels two_group_layer. \<forall>h<dimH ([pair_shard 1] ! r). \<forall>w<1.
                       c div (num_channels two_group_layer div num_groups two_group_layer) \<noteq> 0
                       \<longrightarrow> elt ([pair_shard 5] ! r) b c h w = elt ([pair_shard 1] ! r) b c h w)"
    by (simp add: pair_shard_def two_group_layer_def)
  have o: "(1::nat) \<noteq> 0" "1 < num_groups two_group_layer"
    by (simp_all add: two_group_layer_def)
  have l: "length [pair_shard 5] = length [pair_shard 1]" by simp
  from C6_group_isolation[OF pair_ok pair_ok l same o]
  obtain ss ss' where
    r: "PGN_moments two_group_layer [pair_shard 1]
          = ([Gather_height, Gather_partial_sum, Gather_partial_var], Inr ss)"
       "PGN_moments two_group_layer [pair_shard 5]
          = ([Gather_height, Gather_partial_sum, Gather_partial_var], Inr ss')"
    and e: "\<forall>r<length [pair_shard 1]. \<forall>b<1.
               sval (mo_E (ss' ! r)) b 1 = sval (mo_E (ss ! r)) b 1
             \<and> sval (mo_var (ss' ! r)) b 1 = sval (mo_var (ss ! r)) b 1"
    by blast
  have d: "sval (mo_E (projr (snd (PGN_moments two_group_layer [pair_shard 5])) ! 0)) 0 0
       \<noteq> sval (mo_E (projr (snd (PGN_moments two_group_layer [pair_shard 1])) ! 0)) 0 0"
    by (simp add: PGN_moments_ok[OF pair_ok] pair_mean del: One_nat_def)
  from e[rule_format, of 0 0] r d pair_ok show ?thesis by simp
qed

section \<open>Round 2: the variance\<close>

lemma ada_shards_ok_as_shards:
  assumes ok: "ada_shards_ok a C W inputs" and m: "num_groups m = 1" "num_channels m = C"
  shows "shards_ok m 1 W (map fst inputs)"
  using ok m by (auto simp: ada_shards_ok_def shards_ok_def list_all_iff)

lemma ada_total_single:
  assumes "dimB x = 1"
  shows "ada_total \<phi> x = (\<Sum>c<dimC x. \<Sum>h<dimH x. \<Sum>w<dimW x. \<phi> (elt x 0 c h w))"
  using assms by (simp add: ada_total_def)

lemma ada_moments_eq_dist:
  assumes ok: "ada_shards_ok a C W inputs" and m: "num_groups m = 1" "num_channels m = C"
  shows "ada_E C W inputs = sval (dist_E m 1 W (map fst inputs)) 0 0"
    and "ada_var C W inputs = sval (dist_var m 1 W (map fst inputs)) 0 0"
proof -
  have n: "real (ada_nelements C W inputs) = real (dist_nelements m W (map fst inputs))"
    by (simp add: ada_nelements_def dist_nelements_def m comp_def)
  have t: "ada_total \<phi> (fst xe) = sval (sum_to_size5 (gview m (fst xe)\<lparr>elt5 :=
              (\<lambda>b g k h w. \<phi> (elt5 (gview m (fst xe)) b g k h w))\<rparr>)) 0 0"
    if "xe \<in> set inputs" for xe and \<phi> :: "real \<Rightarrow> real"
    using ada_okD[OF ok that]
    by (simp add: ada_total_single sum_to_size5_def gview_def m)
  have E: "(\<Sum>xe\<leftarrow>inputs. ada_total (\<lambda>v. v) (fst xe))
             = (\<Sum>x\<leftarrow>map fst inputs. sval (sum_to_size5 (gview m x)) 0 0)"
    unfolding map_map comp_def
    by (rule arg_cong[where f = sum_list], rule map_cong) (simp_all add: t)
  show e: "ada_E C W inputs = sval (dist_E m 1 W (map fst inputs)) 0 0"
    unfolding ada_E_def n E
    by (simp add: dist_E_def stat_div_def stack_sum_def comp_def)
  have V: "(\<Sum>xe\<leftarrow>inputs. ada_total (\<lambda>v. (v - ada_E C W inputs)\<^sup>2) (fst xe))
             = (\<Sum>x\<leftarrow>map fst inputs.
                  sval (sum_to_size5 (sq_dev5 (gview m x) (dist_E m 1 W (map fst inputs)))) 0 0)"
    unfolding map_map comp_def
    by (rule arg_cong[where f = sum_list], rule map_cong)
       (simp_all add: t e sq_dev5_def sum_to_size5_def)
  show "ada_var C W inputs = sval (dist_var m 1 W (map fst inputs)) 0 0"
    unfolding ada_var_def n V
    by (simp add: dist_var_def stat_div_def stack_sum_def comp_def)
qed

lemma dist_var_unfold:
  assumes ok: "shards_ok m B W xs"
  shows "sval (dist_var m B W xs) b g =
           (\<Sum>x\<leftarrow>xs. \<Sum>k<num_channels m div num_groups m. \<Sum>h<dimH x. \<Sum>w<W.
               (elt x b (g * (num_channels m div num_groups m) + k) h w
                  - sval (dist_E m B W xs) b g)\<^sup>2)
             / real (num_channels m div num_groups m * sum_list (map dimH xs) * W)"
proof -
  have "(\<Sum>x\<leftarrow>xs. sval (sum_to_size5 (sq_dev5 (gview m x) (dist_E m B W xs))) b g)
          = (\<Sum>x\<leftarrow>xs. \<Sum>k<num_channels m div num_groups m. \<Sum>h<dimH x. \<Sum>w<W.
                (elt x b (g * (num_channels m div num_groups m) + k) h w
                   - sval (dist_E m B W xs) b g)\<^sup>2)"
    by (rule arg_cong[where f = sum_list], rule map_cong)
       (simp_all add: sum_to_size5_def sq_dev5_def gview_def shards_okD[OF ok])
  then show ?thesis
    by (simp add: dist_var_def stat_div_def stack_sum_def dist_nelements_def comp_def)
qed

lemma ada_var_unfold:
  assumes ok: "ada_shards_ok a C W inputs"
  shows "ada_var C W inputs =
           (\<Sum>xe\<leftarrow>inputs. \<Sum>c<C. \<Sum>h<dimH (fst xe). \<Sum>w<W.
               (elt (fst xe) 0 c h w - ada_E C W inputs)\<^sup>2)
             / real (C * sum_list (map (\<lambda>xe. dimH (fst xe)) inputs) * W)"
proof -
  have "(\<Sum>xe\<leftarrow>inputs. ada_total (\<lambda>v. (v - ada_E C W inputs)\<^sup>2) (fst xe))
          = (\<Sum>xe\<leftarrow>inputs. \<Sum>c<C. \<Sum>h<dimH (fst xe). \<Sum>w<W.
               (elt (fst xe) 0 c h w - ada_E C W inputs)\<^sup>2)"
    by (rule arg_cong[where f = sum_list], rule map_cong)
       (simp_all add: ada_total_single ada_okD[OF ok])
  then show ?thesis
    by (simp add: ada_var_def ada_nelements_def)
qed

text \<open>
  C3: in round 2 the contribution of each worker is its local sum of squared deviations
  from the mean \<open>E\<close> of round 1, which is the mean of the whole tensor and not a local
  one; the variance every worker ends with is the sum of all workers' contributions
  divided by the total element count \<^verbatim>\<open>channels_per_group * height * width\<close>, that is
  the biased (population) variance of the reassembled tensor. This holds for
  \<^verbatim>\<open>PatchGroupNorm.forward\<close>, and for \<^verbatim>\<open>PatchAdaGroupNorm.forward\<close> on the inputs on
  which its round 1 returns (one group, batch size 1).
\<close>

theorem C3_round2_variance:
  assumes ok: "shards_ok m B W xs" and aok: "ada_shards_ok a C W' inputs"
  shows "(\<exists>ss. PGN_moments m xs
                 = ([Gather_height, Gather_partial_sum, Gather_partial_var], Inr ss)
             \<and> length ss = length xs
             \<and> (\<forall>r<length xs. \<forall>b<B. \<forall>g<num_groups m.
                   sval (mo_var (ss ! r)) b g =
                     (\<Sum>x\<leftarrow>xs. \<Sum>k<num_channels m div num_groups m. \<Sum>h<dimH x. \<Sum>w<W.
                         (elt x b (g * (num_channels m div num_groups m) + k) h w
                            - sval (mo_E (ss ! r)) b g)\<^sup>2)
                       / real (num_channels m div num_groups m * sum_list (map dimH xs) * W)
                 \<and> sval (mo_E (ss ! r)) b g = group_mean (hcat xs) (num_groups m) b g
                 \<and> sval (mo_var (ss ! r)) b g = group_var (hcat xs) (num_groups m) b g))
       \<and> (\<exists>ss. PAGN_moments a inputs
                 = ([Gather_height, Gather_partial_sum, Gather_partial_var], Inr ss)
             \<and> length ss = length inputs
             \<and> (\<forall>r<length inputs.
                   av_var (ss ! r) =
                     (\<Sum>xe\<leftarrow>inputs. \<Sum>c<C. \<Sum>h<dimH (fst xe). \<Sum>w<W'.
                         (elt (fst xe) 0 c h w - av_E (ss ! r))\<^sup>2)
                       / real (C * sum_list (map (\<lambda>xe. dimH (fst xe)) inputs) * W')
                 \<and> av_E (ss ! r) = group_mean (hcat (map fst inputs)) 1 0 0
                 \<and> av_var (ss ! r) = group_var (hcat (map fst inputs)) 1 0 0))"
proof (rule conjI)
  show "\<exists>ss. PGN_moments m xs
                 = ([Gather_height, Gather_partial_sum, Gather_partial_var], Inr ss)
             \<and> length ss = length xs
             \<and> (\<forall>r<length xs. \<forall>b<B. \<forall>g<num_groups m.
                   sval (mo_var (ss ! r)) b g =
                     (\<Sum>x\<leftarrow>xs. \<Sum>k<num_channels m div num_groups m. \<Sum>h<dimH x. \<Sum>w<W.
                         (elt x b (g * (num_channels m div num_groups m) + k) h w
                            - sval (mo_E (ss ! r)) b g)\<^sup>2)
                       / real (num_channels m div num_groups m * sum_list (map dimH xs) * W)
                 \<and> sval (mo_E (ss ! r)) b g = group_mean (hcat xs) (num_groups m) b g
                 \<and> sval (mo_var (ss ! r)) b g = group_var (hcat xs) (num_groups m) b g)"
    unfolding PGN_moments_ok[OF ok]
    using dist_var_unfold[OF ok] dist_E_eq_mean[OF ok] dist_var_eq_var[OF ok]
    by simp
next
  define m' where "m' = \<lparr>num_groups = 1, num_channels = C, eps = 0,
                          weight = None, bias = None\<rparr>"
  have m': "num_groups m' = 1" "num_channels m' = C" by (simp_all add: m'_def)
  note sh = ada_shards_ok_as_shards[OF aok m']
  have E: "ada_E C W' inputs = group_mean (hcat (map fst inputs)) 1 0 0"
    using ada_moments_eq_dist(1)[OF aok m'] dist_E_eq_mean[OF sh, of 0 0] by (simp add: m')
  have V: "ada_var C W' inputs = group_var (hcat (map fst inputs)) 1 0 0"
    using ada_moments_eq_dist(2)[OF aok m'] dist_var_eq_var[OF sh, of 0 0] by (simp add: m')
  show "\<exists>ss. PAGN_moments a inputs
                 = ([Gather_height, Gather_partial_sum, Gather_partial_var], Inr ss)
             \<and> length ss = length inputs
             \<and> (\<forall>r<length inputs.
                   av_var (ss ! r) =
                     (\<Sum>xe\<leftarrow>inputs. \<Sum>c<C. \<Sum>h<dimH (fst xe). \<Sum>w<W'.
                         (elt (fst xe) 0 c h w - av_E (ss ! r))\<^sup>2)
                       / real (C * sum_list (map (\<lambda>xe. dimH (fst xe)) inputs) * W')
                 \<and> av_E (ss ! r) = group_mean (hcat (map fst inputs)) 1 0 0
                 \<and> av_var (ss ! r) = group_var (hcat (map fst inputs)) 1 0 0)"
    unfolding PAGN_moments_ok[OF aok]
    using ada_var_unfold[OF aok] E V
    by simp
qed

text \<open>Both variants on the two-worker scenario: the variance is that of the full image.\<close>

theorem C3_witness:
  "shards_ok scenario_layer 1 4 [shard_A, shard_B]
   \<and> ada_shards_ok scenario_ada 1 4 [(shard_A, unit_emb), (shard_B, unit_emb)]
   \<and> sval (mo_var (projr (snd (PGN_moments scenario_layer [shard_A, shard_B])) ! 1)) 0 0
       = group_var (hcat [shard_A, shard_B]) 1 0 0
   \<and> av_var (projr (snd (PAGN_moments scenario_ada
                             [(shard_A, unit_emb), (shard_B, unit_emb)])) ! 1)
       = group_var (hcat [shard_A, shard_B]) 1 0 0"
proof -
  note t = C3_round2_variance[OF scenario_ok(1) scenario_ada_ok]
  from t[THEN conjunct1] obtain ss where
    s: "PGN_moments scenario_layer [shard_A, shard_B]
          = ([Gather_height, Gather_partial_sum, Gather_partial_var], Inr ss)"
    and v: "\<forall>r<length [shard_A, shard_B]. \<forall>b<1. \<forall>g<num_groups scenario_layer.
              sval (mo_var (ss ! r)) b g
                = group_var (hcat [shard_A, shard_B]) (num_groups scenario_layer) b g"
    by blast
  from t[THEN conjunct2] obtain ss' where
    s': "PAGN_moments scenario_ada [(shard_A, unit_emb), (shard_B, unit_emb)]
          = ([Gather_height, Gather_partial_sum, Gather_partial_var], Inr ss')"
    and v': "\<forall>r<length [(shard_A, unit_emb), (shard_B, unit_emb)].
              av_var (ss' ! r)
                = group_var (hcat (map fst [(shard_A, unit_emb), (shard_B, unit_emb)])) 1 0 0"
    by blast
  from v[rule_format, of 1 0 0] v'[rule_format, of 1] s s' scenario_ok(1) scenario_ada_ok
  show ?thesis by (simp add: scenario_simps)
qed

section \<open>The applicator\<close>

lemma PGN_apply_affine:
  assumes pos: "0 < dimB x" "0 < dimH x" "0 < dimW x"
    and dv: "num_groups m dvd dimC x"
    and wt: "weight m = Some wt" "length wt = dimC x"
    and bs: "bias m = Some bs" "length bs = dimC x"
  shows "\<exists>xn y. view4 (normalize5 (gview m x) E V (eps m)) = Inr xn
           \<and> PGN_apply m \<lparr>mo_x = gview m x, mo_E = E, mo_var = V\<rparr> = Inr y
           \<and> dimB y = dimB x \<and> dimC y = dimC x \<and> dimH y = dimH x \<and> dimW y = dimW x
           \<and> (\<forall>c<dimC x. \<forall>b h w. elt y b c h w = elt xn b c h w * wt ! c + bs ! c)"
proof -
  let ?K = "dimC x div num_groups m"
  have C: "num_groups m * ?K = dimC x" using dv by simp
  have v4: "view4 (normalize5 (gview m x) E V (eps m)) =
              Inr \<lparr>dimB = dimB x, dimC = dimC x, dimH = dimH x, dimW = dimW x,
                   elt = (\<lambda>b c h w. (elt x b c h w - sval E b (c div ?K))
                                       / sqrt (sval V b (c div ?K) + eps m))\<rparr>"
    using pos C by (subst view4_ok) (simp_all add: normalize5_def gview_def div_mult_mod_eq)
  show ?thesis
    unfolding PGN_apply_def
    by (simp add: v4 wt bs chan_op_ok bidx_in_range)
qed

lemma AdaGroupNorm_forward_ok:
  assumes cfg: "0 < ada_num_groups u" "ada_num_groups u dvd dimC x" "0 < dimC x"
      "out_features (ada_linear u) = 2 * dimC x" "cols emb = in_features (ada_linear u)"
      "rows emb = dimB x"
  shows "\<exists>xn scale shift y.
           group_norm_unsharded x (ada_num_groups u) (ada_eps u) = Inr xn
         \<and> conditioning u emb = Inr (scale, shift)
         \<and> AdaGroupNorm_forward u x emb = Inr y
         \<and> dimB y = dimB x \<and> dimC y = dimC x \<and> dimH y = dimH x \<and> dimW y = dimW x
         \<and> (\<forall>b<dimB x. \<forall>c<dimC x. \<forall>h w.
               elt y b c h w = elt xn b c h w * (1 + mval scale b c) + mval shift b c)"
proof -
  from conditioning_ok[OF cfg(5,4,3)] obtain scale shift where
    c: "conditioning u emb = Inr (scale, shift)"
    and d: "rows scale = rows emb" "cols scale = dimC x" "rows shift = rows emb" "cols shift = dimC x"
    by blast
  have md: "dimC x mod ada_num_groups u = 0" using cfg(2) by auto
  obtain xn where xn: "group_norm_unsharded x (ada_num_groups u) (ada_eps u) = Inr xn"
    and xd: "dimB xn = dimB x" "dimC xn = dimC x" "dimH xn = dimH x" "dimW xn = dimW x"
    using cfg(1) md by (simp add: group_norm_unsharded_def Let_def)
  from scale_shift_ok[of scale xn shift] d xd cfg(6)
  obtain y where y: "scale_shift xn scale shift = Inr y"
    and yd: "dimB y = dimB x" "dimC y = dimC x" "dimH y = dimH x" "dimW y = dimW x"
    and ye: "\<forall>b<dimB x. \<forall>c<dimC x. \<forall>h w.
               elt y b c h w = elt xn b c h w * (1 + mval scale b c) + mval shift b c"
    by auto
  have "AdaGroupNorm_forward u x emb = Inr y"
    by (simp add: AdaGroupNorm_forward_def c xn y)
  with xn c yd ye show ?thesis by blast
qed

lemma PatchGroupNorm_applies_affine:
  assumes ok: "shards_ok m B W xs" and aff: "affine_ok m"
  shows "\<exists>ss ys wt bs.
            PGN_moments m xs = ([Gather_height, Gather_partial_sum, Gather_partial_var], Inr ss)
          \<and> PatchGroupNorm_forward m xs
              = ([Gather_height, Gather_partial_sum, Gather_partial_var], Inr ys)
          \<and> weight m = Some wt \<and> bias m = Some bs
          \<and> (\<forall>r<length xs. \<exists>xn.
                view4 (normalize5 (mo_x (ss ! r)) (mo_E (ss ! r)) (mo_var (ss ! r)) (eps m)) = Inr xn
              \<and> dimB (ys ! r) = dimB (xs ! r) \<and> dimC (ys ! r) = dimC (xs ! r)
              \<and> dimH (ys ! r) = dimH (xs ! r) \<and> dimW (ys ! r) = dimW (xs ! r)
              \<and> (\<forall>b<B. \<forall>c<num_channels m. \<forall>h<dimH (xs ! r). \<forall>w<W.
                    elt (ys ! r) b c h w = elt xn b c h w * wt ! c + bs ! c))"
proof -
  from aff obtain wt bs where wb: "weight m = Some wt" "bias m = Some bs"
    "length wt = num_channels m" "length bs = num_channels m"
    by (rule affine_okD)
  let ?S = "\<lambda>x. \<lparr>mo_x = gview m x, mo_E = dist_E m B W xs, mo_var = dist_var m B W xs\<rparr>"
  let ?Y = "\<lambda>x. projr (PGN_apply m (?S x))"
  have per: "\<exists>xn. view4 (normalize5 (gview m x) (dist_E m B W xs) (dist_var m B W xs) (eps m)) = Inr xn
              \<and> dimB (?Y x) = dimB x \<and> dimC (?Y x) = dimC x
              \<and> dimH (?Y x) = dimH x \<and> dimW (?Y x) = dimW x
              \<and> (\<forall>c<num_channels m. \<forall>b h w. elt (?Y x) b c h w = elt xn b c h w * wt ! c + bs ! c)"
    if x: "x \<in> set xs" for x
    using PGN_apply_affine[of x m wt bs "dist_E m B W xs" "dist_var m B W xs"]
      shards_okD[OF ok x] shards_okG[OF ok] wb
    by auto
  have every: "\<forall>r<length xs. \<exists>xn.
                view4 (normalize5 (mo_x (map ?S xs ! r)) (mo_E (map ?S xs ! r))
                         (mo_var (map ?S xs ! r)) (eps m)) = Inr xn
              \<and> dimB (map ?Y xs ! r) = dimB (xs ! r) \<and> dimC (map ?Y xs ! r) = dimC (xs ! r)
              \<and> dimH (map ?Y xs ! r) = dimH (xs ! r) \<and> dimW (map ?Y xs ! r) = dimW (xs ! r)
              \<and> (\<forall>b<B. \<forall>c<num_channels m. \<forall>h<dimH (xs ! r). \<forall>w<W.
                    elt (map ?Y xs ! r) b c h w = elt xn b c h w * wt ! c + bs ! c)"
  proof (intro allI impI)
    fix r assume r: "r < length xs"
    then have "xs ! r \<in> set xs" by simp
    from per[OF this] obtain xn where
      "view4 (normalize5 (gview m (xs ! r)) (dist_E m B W xs) (dist_var m B W xs) (eps m)) = Inr xn"
      "dimB (?Y (xs ! r)) = dimB (xs ! r)" "dimC (?Y (xs ! r)) = dimC (xs ! r)"
      "dimH (?Y (xs ! r)) = dimH (xs ! r)" "dimW (?Y (xs ! r)) = dimW (xs ! r)"
      "\<forall>c<num_channels m. \<forall>b h w. elt (?Y (xs ! r)) b c h w = elt xn b c h w * wt ! c + bs ! c"
      by blast
    with r show "\<exists>xn.
                view4 (normalize5 (mo_x (map ?S xs ! r)) (mo_E (map ?S xs ! r))
                         (mo_var (map ?S xs ! r)) (eps m)) = Inr xn
              \<and> dimB (map ?Y xs ! r) = dimB (xs ! r) \<and> dimC (map ?Y xs ! r) = dimC (xs ! r)
              \<and> dimH (map ?Y xs ! r) = dimH (xs ! r) \<and> dimW (map ?Y xs ! r) = dimW (xs ! r)
              \<and> (\<forall>b<B. \<forall>c<num_channels m. \<forall>h<dimH (xs ! r). \<forall>w<W.
                    elt (map ?Y xs ! r) b c h w = elt xn b c h w * wt ! c + bs ! c)"
      by (intro exI[of _ xn]) simp
  qed
  show ?thesis
    apply (rule exI[of _ "map ?S xs"])
    apply (rule exI[of _ "map ?Y xs"])
    apply (rule exI[of _ wt])
    apply (rule exI[of _ bs])
    apply (intro conjI)
        apply (rule PGN_moments_ok[OF ok])
       apply (rule PatchGroupNorm_forward_ok[OF ok aff])
      apply (rule wb(1))
     apply (rule wb(2))
    apply (rule every)
    done
qed

lemma PatchAdaGroupNorm_applies_scale_shift:
  assumes aok: "ada_shards_ok a C W' inputs"
  shows "\<exists>ss ys.
            PAGN_moments a inputs
              = ([Gather_height, Gather_partial_sum, Gather_partial_var], Inr ss)
          \<and> PatchAdaGroupNorm_forward a inputs
              = ([Gather_height, Gather_partial_sum, Gather_partial_var], Inr ys)
          \<and> (\<forall>r<length inputs.
                dimB (ys ! r) = dimB (fst (inputs ! r)) \<and> dimC (ys ! r) = dimC (fst (inputs ! r))
              \<and> dimH (ys ! r) = dimH (fst (inputs ! r)) \<and> dimW (ys ! r) = dimW (fst (inputs ! r))
              \<and> (\<forall>c<C. \<forall>h<dimH (fst (inputs ! r)). \<forall>w<W'.
                    elt (ys ! r) 0 c h w =
                      elt (normalize4 (ac_x (av_in (ss ! r))) (av_E (ss ! r)) (av_var (ss ! r))
                             (ada_eps a)) 0 c h w
                        * (1 + mval (ac_scale (av_in (ss ! r))) 0 c)
                        + mval (ac_shift (av_in (ss ! r))) 0 c))"
proof -
  let ?R = "\<lambda>xe. \<lparr>av_in = ada_cond a xe, av_E = ada_E C W' inputs, av_var = ada_var C W' inputs\<rparr>"
  let ?Y = "\<lambda>xe. projr (PAGN_apply a (?R xe))"
  have per: "dimB (?Y xe) = dimB (fst xe) \<and> dimC (?Y xe) = dimC (fst xe)
           \<and> dimH (?Y xe) = dimH (fst xe) \<and> dimW (?Y xe) = dimW (fst xe)
           \<and> (\<forall>c<C. \<forall>h w. elt (?Y xe) 0 c h w =
                 elt (normalize4 (ac_x (ada_cond a xe)) (ada_E C W' inputs) (ada_var C W' inputs)
                        (ada_eps a)) 0 c h w
                   * (1 + mval (ac_scale (ada_cond a xe)) 0 c) + mval (ac_shift (ada_cond a xe)) 0 c)"
    if xe: "xe \<in> set inputs" for xe
    using PAGN_apply_ok[OF aok xe, of "ada_E C W' inputs" "ada_var C W' inputs"]
      PAGN_cond_ok(2)[OF aok xe]
    by (auto simp: normalize4_def)
  have every: "\<forall>r<length inputs.
                dimB (map ?Y inputs ! r) = dimB (fst (inputs ! r))
              \<and> dimC (map ?Y inputs ! r) = dimC (fst (inputs ! r))
              \<and> dimH (map ?Y inputs ! r) = dimH (fst (inputs ! r))
              \<and> dimW (map ?Y inputs ! r) = dimW (fst (inputs ! r))
              \<and> (\<forall>c<C. \<forall>h<dimH (fst (inputs ! r)). \<forall>w<W'.
                    elt (map ?Y inputs ! r) 0 c h w =
                      elt (normalize4 (ac_x (av_in (map ?R inputs ! r))) (av_E (map ?R inputs ! r))
                             (av_var (map ?R inputs ! r)) (ada_eps a)) 0 c h w
                        * (1 + mval (ac_scale (av_in (map ?R inputs ! r))) 0 c)
                        + mval (ac_shift (av_in (map ?R inputs ! r))) 0 c)"
  proof (intro allI impI)
    fix r assume r: "r < length inputs"
    then have "inputs ! r \<in> set inputs" by simp
    from per[OF this] r
    show "dimB (map ?Y inputs ! r) = dimB (fst (inputs ! r))
              \<and> dimC (map ?Y inputs ! r) = dimC (fst (inputs ! r))
              \<and> dimH (map ?Y inputs ! r) = dimH (fst (inputs ! r))
              \<and> dimW (map ?Y inputs ! r) = dimW (fst (inputs ! r))
              \<and> (\<forall>c<C. \<forall>h<dimH (fst (inputs ! r)). \<forall>w<W'.
                    elt (map ?Y inputs ! r) 0 c h w =
                      elt (normalize4 (ac_x (av_in (map ?R inputs ! r))) (av_E (map ?R inputs ! r))
                             (av_var (map ?R inputs ! r)) (ada_eps a)) 0 c h w
                        * (1 + mval (ac_scale (av_in (map ?R inputs ! r))) 0 c)
                        + mval (ac_shift (av_in (map ?R inputs ! r))) 0 c)"
      by simp
  qed
  show ?thesis
    apply (rule exI[of _ "map ?R inputs"])
    apply (rule exI[of _ "map ?Y inputs"])
    apply (intro conjI)
      apply (rule PAGN_moments_ok[OF aok])
     apply (rule PatchAdaGroupNorm_forward_ok[OF aok])
    apply (rule every)
    done
qed

text \<open>
  C4: the Normalization Applicator. In the affine variant the output is the normalised
  shard (viewed back to four axes) times the per-channel weight plus the per-channel
  bias; in the conditioning variants it is the normalised shard times \<open>1 + scale\<close>
  plus \<open>shift\<close>. Both are elementwise, and the output has the shape of the input
  shard. The weight and bias hold one value per channel (\<open>affine_ok\<close>), scale and
  shift one value per batch element and channel.
\<close>

theorem C4_applicator:
  assumes ok: "shards_ok m B W xs" and aff: "affine_ok m"
    and aok: "ada_shards_ok a C W' inputs"
    and cfg: "0 < ada_num_groups u" "ada_num_groups u dvd dimC x" "0 < dimC x"
      "out_features (ada_linear u) = 2 * dimC x" "cols emb = in_features (ada_linear u)"
      "rows emb = dimB x"
  shows "(\<exists>ss ys wt bs.
            PGN_moments m xs = ([Gather_height, Gather_partial_sum, Gather_partial_var], Inr ss)
          \<and> PatchGroupNorm_forward m xs
              = ([Gather_height, Gather_partial_sum, Gather_partial_var], Inr ys)
          \<and> weight m = Some wt \<and> bias m = Some bs
          \<and> (\<forall>r<length xs. \<exists>xn.
                view4 (normalize5 (mo_x (ss ! r)) (mo_E (ss ! r)) (mo_var (ss ! r)) (eps m)) = Inr xn
              \<and> dimB (ys ! r) = dimB (xs ! r) \<and> dimC (ys ! r) = dimC (xs ! r)
              \<and> dimH (ys ! r) = dimH (xs ! r) \<and> dimW (ys ! r) = dimW (xs ! r)
              \<and> (\<forall>b<B. \<forall>c<num_channels m. \<forall>h<dimH (xs ! r). \<forall>w<W.
                    elt (ys ! r) b c h w = elt xn b c h w * wt ! c + bs ! c)))
       \<and> (\<exists>ss ys.
            PAGN_moments a inputs
              = ([Gather_height, Gather_partial_sum, Gather_partial_var], Inr ss)
          \<and> PatchAdaGroupNorm_forward a inputs
              = ([Gather_height, Gather_partial_sum, Gather_partial_var], Inr ys)
          \<and> (\<forall>r<length inputs.
                dimB (ys ! r) = dimB (fst (inputs ! r)) \<and> dimC (ys ! r) = dimC (fst (inputs ! r))
              \<and> dimH (ys ! r) = dimH (fst (inputs ! r)) \<and> dimW (ys ! r) = dimW (fst (inputs ! r))
              \<and> (\<forall>c<C. \<forall>h<dimH (fst (inputs ! r)). \<forall>w<W'.
                    elt (ys ! r) 0 c h w =
                      elt (normalize4 (ac_x (av_in (ss ! r))) (av_E (ss ! r)) (av_var (ss ! r))
                             (ada_eps a)) 0 c h w
                        * (1 + mval (ac_scale (av_in (ss ! r))) 0 c)
                        + mval (ac_shift (av_in (ss ! r))) 0 c)))
       \<and> (\<exists>xn scale shift y.
            group_norm_unsharded x (ada_num_groups u) (ada_eps u) = Inr xn
          \<and> conditioning u emb = Inr (scale, shift)
          \<and> AdaGroupNorm_forward u x emb = Inr y
          \<and> dimB y = dimB x \<and> dimC y = dimC x \<and> dimH y = dimH x \<and> dimW y = dimW x
          \<and> (\<forall>b<dimB x. \<forall>c<dimC x. \<forall>h w.
                elt y b c h w = elt xn b c h w * (1 + mval scale b c) + mval shift b c))"
  by (intro conjI PatchGroupNorm_applies_affine[OF ok aff]
        PatchAdaGroupNorm_applies_scale_shift[OF aok] AdaGroupNorm_forward_ok[OF cfg])

text \<open>
  The hypotheses hold in the two-worker scenario. There the three forwards return, and
  each output has the shape of its input.
\<close>

theorem C4_witness:
  "shards_ok scenario_layer 1 4 [shard_A, shard_B] \<and> affine_ok scenario_layer
   \<and> ada_shards_ok scenario_ada 1 4 [(shard_A, unit_emb), (shard_B, unit_emb)]
   \<and> dimH (projr (snd (PatchGroupNorm_forward scenario_layer [shard_A, shard_B])) ! 0) = 2
   \<and> dimW (projr (snd (PatchAdaGroupNorm_forward scenario_ada
                           [(shard_A, unit_emb), (shard_B, unit_emb)])) ! 1) = 4
   \<and> dimC (projr (AdaGroupNorm_forward scenario_ada shard_A unit_emb)) = 1"
proof -
  have cfg: "0 < ada_num_groups scenario_ada" "ada_num_groups scenario_ada dvd dimC shard_A"
    "0 < dimC shard_A" "out_features (ada_linear scenario_ada) = 2 * dimC shard_A"
    "cols unit_emb = in_features (ada_linear scenario_ada)" "rows unit_emb = dimB shard_A"
    by (simp_all add: scenario_ada_def ada_layer_def unit_emb_def scenario_simps)
  note t = C4_applicator[OF scenario_ok(1,2) scenario_ada_ok cfg]
  from t[THEN conjunct1] obtain ys where
    p: "PatchGroupNorm_forward scenario_layer [shard_A, shard_B]
          = ([Gather_height, Gather_partial_sum, Gather_partial_var], Inr ys)"
    and pd: "dimH (ys ! 0) = dimH ([shard_A, shard_B] ! 0)"
    by auto
  from t[THEN conjunct2, THEN conjunct1] obtain ys' where
    q: "PatchAdaGroupNorm_forward scenario_ada [(shard_A, unit_emb), (shard_B, unit_emb)]
          = ([Gather_height, Gather_partial_sum, Gather_partial_var], Inr ys')"
    and qd: "dimW (ys' ! 1) = dimW (fst ([(shard_A, unit_emb), (shard_B, unit_emb)] ! 1))"
    by auto
  from t[THEN conjunct2, THEN conjunct2] obtain y where
    u: "AdaGroupNorm_forward scenario_ada shard_A unit_emb = Inr y" and ud: "dimC y = dimC shard_A"
    by auto
  from p pd q qd u ud scenario_ok(1,2) scenario_ada_ok show ?thesis
    by (simp add: scenario_simps)
qed

section \<open>The placement of eps\<close>

lemma zero_conditioning:
  assumes ok: "ada_shards_ok a C W inputs" and xe: "xe \<in> set inputs"
    and z: "lin_weight (ada_linear a) = zero_weight" "lin_bias (ada_linear a) = zero_bias"
  shows "mval (ac_scale (ada_cond a xe)) b c = 0" "mval (ac_shift (ada_cond a xe)) b c = 0"
proof -
  have d: "cols (snd xe) = in_features (ada_linear a)" "out_features (ada_linear a) \<noteq> 1"
    using ada_okD(6)[OF ok xe] ada_okG(2,5)[OF ok] by simp_all
  show "mval (ac_scale (ada_cond a xe)) b c = 0" "mval (ac_shift (ada_cond a xe)) b c = 0"
    using d
    by (simp_all add: ada_cond_def PAGN_cond_def conditioning_def linear_forward_def chunk2_def
          Let_def z zero_weight_def zero_bias_def split: option.splits)
qed

lemma PGN_single_group_output:
  assumes ok: "shards_ok m 1 W xs" and g: "num_groups m = 1"
    and w: "weight m = Some (replicate (num_channels m) 1)"
           "bias m = Some (replicate (num_channels m) 0)"
    and x: "x \<in> set xs" and c: "c < num_channels m"
  shows "elt (projr (PGN_apply m \<lparr>mo_x = gview m x, mo_E = dist_E m 1 W xs,
                                   mo_var = dist_var m 1 W xs\<rparr>)) 0 c h w
           = (elt x 0 c h w - group_mean (hcat xs) 1 0 0)
               / sqrt (group_var (hcat xs) 1 0 0 + eps m)"
proof -
  from PGN_apply_ok[of x m "replicate (num_channels m) 1" "replicate (num_channels m) 0"
         "dist_E m 1 W xs" "dist_var m 1 W xs"]
    shards_okD[OF ok x] shards_okG[OF ok] w
  obtain y where y: "PGN_apply m \<lparr>mo_x = gview m x, mo_E = dist_E m 1 W xs,
                                   mo_var = dist_var m 1 W xs\<rparr> = Inr y"
    and e: "\<forall>c<dimC x. \<forall>b h w. elt y b c h w =
                 (elt x b c h w - sval (dist_E m 1 W xs) b (c div (dimC x div num_groups m)))
                   / sqrt (sval (dist_var m 1 W xs) b (c div (dimC x div num_groups m)) + eps m)
                   * replicate (num_channels m) 1 ! c + replicate (num_channels m) 0 ! c"
    by auto
  have cx: "c < dimC x" using c shards_okD(2)[OF ok x] by simp
  from e[rule_format, OF cx, of 0 h w] c
  show ?thesis
    unfolding y
    by (simp add: g shards_okD(2)[OF ok x] dist_E_eq_mean[OF ok] dist_var_eq_var[OF ok]
          del: One_nat_def)
qed

lemma PAGN_zero_linear_output:
  assumes aok: "ada_shards_ok a C W inputs"
    and z: "lin_weight (ada_linear a) = zero_weight" "lin_bias (ada_linear a) = zero_bias"
    and xe: "xe \<in> set inputs" and c: "c < C"
  shows "elt (projr (PAGN_apply a \<lparr>av_in = ada_cond a xe, av_E = ada_E C W inputs,
                                    av_var = ada_var C W inputs\<rparr>)) 0 c h w
           = (elt (fst xe) 0 c h w - group_mean (hcat (map fst inputs)) 1 0 0)
               / sqrt (group_var (hcat (map fst inputs)) 1 0 0 + ada_eps a)"
proof -
  define m' where "m' = \<lparr>num_groups = 1, num_channels = C, eps = 0,
                          weight = None, bias = None\<rparr>"
  have m': "num_groups m' = 1" "num_channels m' = C" by (simp_all add: m'_def)
  note sh = ada_shards_ok_as_shards[OF aok m']
  have E: "ada_E C W inputs = group_mean (hcat (map fst inputs)) 1 0 0"
    using ada_moments_eq_dist(1)[OF aok m'] dist_E_eq_mean[OF sh, of 0 0] by (simp add: m')
  have V: "ada_var C W inputs = group_var (hcat (map fst inputs)) 1 0 0"
    using ada_moments_eq_dist(2)[OF aok m'] dist_var_eq_var[OF sh, of 0 0] by (simp add: m')
  from PAGN_apply_ok[OF aok xe, of "ada_E C W inputs" "ada_var C W inputs"]
  obtain y where y: "PAGN_apply a \<lparr>av_in = ada_cond a xe, av_E = ada_E C W inputs,
                                    av_var = ada_var C W inputs\<rparr> = Inr y"
    and e: "\<forall>c<C. \<forall>h w. elt y 0 c h w =
                 (elt (fst xe) 0 c h w - ada_E C W inputs) / sqrt (ada_var C W inputs + ada_eps a)
                   * (1 + mval (ac_scale (ada_cond a xe)) 0 c) + mval (ac_shift (ada_cond a xe)) 0 c"
    by auto
  from e[rule_format, OF c, of h w] show ?thesis
    unfolding y
    by (simp add: zero_conditioning[OF aok xe z] E V)
qed

lemma scenario_full_moments:
  "group_mean (hcat [shard_A, shard_B]) 1 0 0 = 2" "group_var (hcat [shard_A, shard_B]) 1 0 0 = 1"
  using dist_E_eq_mean[OF scenario_ok(1), of 0 0] dist_var_eq_var[OF scenario_ok(1), of 0 0]
  by (simp_all add: scenario_E scenario_var scenario_simps)

lemma eps3_ok:
  "shards_ok (scenario_layer\<lparr>eps := 3\<rparr>) 1 4 [shard_A, shard_B]"
  "affine_ok (scenario_layer\<lparr>eps := 3\<rparr>)"
  "ada_shards_ok (ada_layer 1 1 3) 1 4 [(shard_A, unit_emb), (shard_B, unit_emb)]"
  by (simp_all add: shards_ok_def affine_ok_def ada_shards_ok_def ada_layer_def unit_emb_def
        scenario_layer_def shard_A_def shard_B_def)

text \<open>
  C8, as stated, fails: with \<^verbatim>\<open>eps = 3\<close> on the two-worker scenario (mean 2,
  variance 1) both distributed implementations return \<open>(1 - 2) / sqrt (1 + 3)\<close> for an
  element of worker A, the value with \<^verbatim>\<open>eps\<close> added to the variance under the square
  root. With \<^verbatim>\<open>eps\<close> added after the division the value would be
  \<open>(1 - 2) / sqrt 1 + 3\<close>, which is different. (The affine parameters are ones and zeros,
  scale and shift are zero.)
\<close>

theorem C8_counterexample:
  "elt (projr (snd (PatchGroupNorm_forward (scenario_layer\<lparr>eps := 3\<rparr>) [shard_A, shard_B])) ! 0)
       0 0 0 0 = (1 - 2) / sqrt (1 + 3)
   \<and> elt (projr (snd (PatchAdaGroupNorm_forward (ada_layer 1 1 3)
                        [(shard_A, unit_emb), (shard_B, unit_emb)])) ! 0)
       0 0 0 0 = (1 - 2) / sqrt (1 + 3)
   \<and> (1 - 2) / sqrt (1 + 3) \<noteq> (1 - 2) / sqrt 1 + (3::real)"
proof -
  have p: "elt (projr (PGN_apply (scenario_layer\<lparr>eps := 3\<rparr>)
             \<lparr>mo_x = gview (scenario_layer\<lparr>eps := 3\<rparr>) shard_A,
              mo_E = dist_E (scenario_layer\<lparr>eps := 3\<rparr>) 1 4 [shard_A, shard_B],
              mo_var = dist_var (scenario_layer\<lparr>eps := 3\<rparr>) 1 4 [shard_A, shard_B]\<rparr>)) 0 0 0 0
           = (1 - 2) / sqrt (1 + 3)"
    by (subst PGN_single_group_output[OF eps3_ok(1)])
       (simp_all add: scenario_full_moments[unfolded One_nat_def] scenario_simps
          scenario_layer_def)
  have q: "elt (projr (PAGN_apply (ada_layer 1 1 3)
             \<lparr>av_in = ada_cond (ada_layer 1 1 3) (shard_A, unit_emb),
              av_E = ada_E 1 4 [(shard_A, unit_emb), (shard_B, unit_emb)],
              av_var = ada_var 1 4 [(shard_A, unit_emb), (shard_B, unit_emb)]\<rparr>)) 0 0 0 0
           = (1 - 2) / sqrt (1 + 3)"
    by (subst PAGN_zero_linear_output[OF eps3_ok(3)])
       (simp_all add: scenario_full_moments[unfolded One_nat_def] scenario_simps ada_layer_def)
  show ?thesis
    unfolding PatchGroupNorm_forward_ok[OF eps3_ok(1,2)] PatchAdaGroupNorm_forward_ok[OF eps3_ok(3)]
    using p q by simp
qed

text \<open>
  C8, amended: the placement of \<^verbatim>\<open>eps\<close> is the same in the two distributed
  implementations: both add \<^verbatim>\<open>eps\<close> to the variance before the square root (lines 89
  and 171). On the same shards (one group, batch size 1, where both return), with
  weight 1 and bias 0 on one side and scale 0 and shift 0 on the other, both outputs
  are \<open>(x - mean) / sqrt (var + eps)\<close> at every position.
\<close>

theorem C8_same_eps_placement:
  assumes aok: "ada_shards_ok a C W inputs"
    and z: "lin_weight (ada_linear a) = zero_weight" "lin_bias (ada_linear a) = zero_bias"
    and m: "num_groups m = 1" "num_channels m = C"
           "weight m = Some (replicate C 1)" "bias m = Some (replicate C 0)"
    and e: "eps m = ada_eps a" "0 < ada_eps a"
  shows "\<exists>ys ys'.
           PatchGroupNorm_forward m (map fst inputs)
             = ([Gather_height, Gather_partial_sum, Gather_partial_var], Inr ys)
         \<and> PatchAdaGroupNorm_forward a inputs
             = ([Gather_height, Gather_partial_sum, Gather_partial_var], Inr ys')
         \<and> length ys = length inputs \<and> length ys' = length inputs
         \<and> (\<forall>r<length inputs. \<forall>c<C. \<forall>h<dimH (fst (inputs ! r)). \<forall>w<W.
               elt (ys ! r) 0 c h w
                 = (elt (fst (inputs ! r)) 0 c h w - group_mean (hcat (map fst inputs)) 1 0 0)
                     / sqrt (group_var (hcat (map fst inputs)) 1 0 0 + ada_eps a)
             \<and> elt (ys' ! r) 0 c h w
                 = (elt (fst (inputs ! r)) 0 c h w - group_mean (hcat (map fst inputs)) 1 0 0)
                     / sqrt (group_var (hcat (map fst inputs)) 1 0 0 + ada_eps a))"
proof -
  let ?xs = "map fst inputs"
  note ok = ada_shards_ok_as_shards[OF aok m(1,2)]
  have aff: "affine_ok m" by (simp add: affine_ok_def m)
  let ?Y = "\<lambda>x. projr (PGN_apply m \<lparr>mo_x = gview m x, mo_E = dist_E m 1 W ?xs,
                                       mo_var = dist_var m 1 W ?xs\<rparr>)"
  let ?Y' = "\<lambda>xe. projr (PAGN_apply a \<lparr>av_in = ada_cond a xe, av_E = ada_E C W inputs,
                                          av_var = ada_var C W inputs\<rparr>)"
  have w: "weight m = Some (replicate (num_channels m) 1)"
          "bias m = Some (replicate (num_channels m) 0)"
    by (simp_all add: m)
  have every: "\<forall>r<length inputs. \<forall>c<C. \<forall>h<dimH (fst (inputs ! r)). \<forall>w<W.
               elt (map ?Y ?xs ! r) 0 c h w
                 = (elt (fst (inputs ! r)) 0 c h w - group_mean (hcat ?xs) 1 0 0)
                     / sqrt (group_var (hcat ?xs) 1 0 0 + ada_eps a)
             \<and> elt (map ?Y' inputs ! r) 0 c h w
                 = (elt (fst (inputs ! r)) 0 c h w - group_mean (hcat ?xs) 1 0 0)
                     / sqrt (group_var (hcat ?xs) 1 0 0 + ada_eps a)"
  proof (intro allI impI)
    fix r c h w assume r: "r < length inputs" and c: "c < C"
    have x: "fst (inputs ! r) \<in> set ?xs" and xe: "inputs ! r \<in> set inputs" using r by simp_all
    have c': "c < num_channels m" using c m(2) by simp
    show "elt (map ?Y ?xs ! r) 0 c h w
                 = (elt (fst (inputs ! r)) 0 c h w - group_mean (hcat ?xs) 1 0 0)
                     / sqrt (group_var (hcat ?xs) 1 0 0 + ada_eps a)
             \<and> elt (map ?Y' inputs ! r) 0 c h w
                 = (elt (fst (inputs ! r)) 0 c h w - group_mean (hcat ?xs) 1 0 0)
                     / sqrt (group_var (hcat ?xs) 1 0 0 + ada_eps a)"
      using PGN_single_group_output[OF ok m(1) w x c', of h w]
        PAGN_zero_linear_output[OF aok z xe c, of h w] r
      by (simp add: e(1) del: One_nat_def)
  qed
  show ?thesis
    apply (rule exI[of _ "map ?Y ?xs"])
    apply (rule exI[of _ "map ?Y' inputs"])
    apply (intro conjI)
        apply (rule PatchGroupNorm_forward_ok[OF ok aff])
       apply (rule PatchAdaGroupNorm_forward_ok[OF aok])
      apply simp
     apply simp
    apply (rule every)
    done
qed

text \<open>The two implementations on the two-worker scenario, at an element of worker B.\<close>

theorem C8_witness:
  "ada_shards_ok scenario_ada 1 4 [(shard_A, unit_emb), (shard_B, unit_emb)]
   \<and> 0 < ada_eps scenario_ada
   \<and> elt (projr (snd (PatchGroupNorm_forward scenario_layer [shard_A, shard_B])) ! 1) 0 0 1 3
       = (3 - 2) / sqrt (1 + 1 / 100000)
   \<and> elt (projr (snd (PatchAdaGroupNorm_forward scenario_ada
                         [(shard_A, unit_emb), (shard_B, unit_emb)])) ! 1) 0 0 1 3
       = (3 - 2) / sqrt (1 + 1 / 100000)"
proof -
  have z: "lin_weight (ada_linear scenario_ada) = zero_weight"
          "lin_bias (ada_linear scenario_ada) = zero_bias"
    by (simp_all add: scenario_ada_def ada_layer_def)
  have m: "num_groups scenario_layer = 1" "num_channels scenario_layer = 1"
    "weight scenario_layer = Some (replicate 1 1)" "bias scenario_layer = Some (replicate 1 0)"
    by (simp_all add: scenario_simps)
  have e: "eps scenario_layer = ada_eps scenario_ada" "0 < ada_eps scenario_ada"
    by (simp_all add: scenario_simps scenario_ada_def ada_layer_def)
  from C8_same_eps_placement[OF scenario_ada_ok z m e]
  obtain ys ys' where
    p: "PatchGroupNorm_forward scenario_layer (map fst [(shard_A, unit_emb), (shard_B, unit_emb)])
             = ([Gather_height, Gather_partial_sum, Gather_partial_var], Inr ys)"
    and q: "PatchAdaGroupNorm_forward scenario_ada [(shard_A, unit_emb), (shard_B, unit_emb)]
             = ([Gather_height, Gather_partial_sum, Gather_partial_var], Inr ys')"
    and v: "\<forall>r<length [(shard_A, unit_emb), (shard_B, unit_emb)]. \<forall>c<1.
              \<forall>h<dimH (fst ([(shard_A, unit_emb), (shard_B, unit_emb)] ! r)). \<forall>w<4.
               elt (ys ! r) 0 c h w
                 = (elt (fst ([(shard_A, unit_emb), (shard_B, unit_emb)] ! r)) 0 c h w
                      - group_mean (hcat (map fst [(shard_A, unit_emb), (shard_B, unit_emb)])) 1 0 0)
                     / sqrt (group_var (hcat (map fst [(shard_A, unit_emb), (shard_B, unit_emb)])) 1 0 0
                             + ada_eps scenario_ada)
             \<and> elt (ys' ! r) 0 c h w
                 = (elt (fst ([(shard_A, unit_emb), (shard_B, unit_emb)] ! r)) 0 c h w
                      - group_mean (hcat (map fst [(shard_A, unit_emb), (shard_B, unit_emb)])) 1 0 0)
                     / sqrt (group_var (hcat (map fst [(shard_A, unit_emb), (shard_B, unit_emb)])) 1 0 0
                             + ada_eps scenario_ada)"
    by blast
  have ae: "ada_eps scenario_ada = 1 / 100000" by (simp add: scenario_ada_def ada_layer_def)
  from v[rule_format, of 1 0 1 3] p q scenario_ada_ok e(2)
  show ?thesis
    by (simp add: scenario_simps scenario_full_moments[unfolded One_nat_def] ae)
qed

section \<open>Configuration errors of PatchAdaGroupNorm\<close>

lemma all_ranks_error: "all_ranks rs = Inl e \<Longrightarrow> Inl e \<in> set rs"
  by (induction rs) (auto split: sum.splits)

lemma bdim_error: "bdim m n = Inl e \<Longrightarrow> e = BroadcastError"
  by (auto simp: bdim_def split: if_splits)

lemma cond_op_error: "cond_op f x s = Inl e \<Longrightarrow> e = BroadcastError"
  by (auto simp: cond_op_def split: sum.splits dest: bdim_error)

lemma conditioning_error: "conditioning m emb = Inl e \<Longrightarrow> e = MatmulError \<or> e = UnpackError"
  by (auto simp: conditioning_def linear_forward_def chunk2_def Let_def
      split: sum.splits if_splits option.splits)

lemma PAGN_stage_errors:
  "PAGN_cond m xe \<noteq> Inl NotDivisible"
  "PAGN_sums m s hl \<noteq> Inl NotDivisible"
  "PAGN_mean m s1 ps \<noteq> Inl NotDivisible"
  "PAGN_var s2 pv \<noteq> Inl NotDivisible"
  "PAGN_apply m s3 \<noteq> Inl NotDivisible"
  "all_gather_stat cs \<noteq> Inl NotDivisible"
proof -
  show "PAGN_cond m xe \<noteq> Inl NotDivisible"
    by (auto simp: PAGN_cond_def split: sum.splits prod.splits dest: conditioning_error)
  show "PAGN_sums m s hl \<noteq> Inl NotDivisible"
    by (auto simp: PAGN_sums_def Let_def sum_to_size2_def split: sum.splits if_splits)
  show "PAGN_mean m s1 ps \<noteq> Inl NotDivisible"
    by (auto simp: PAGN_mean_def Let_def sum_to_size2_def tensor_sum_def
        split: sum.splits if_splits)
  show "PAGN_var s2 pv \<noteq> Inl NotDivisible"
    by (auto simp: PAGN_var_def tensor_sum_def split: sum.splits if_splits)
  show "PAGN_apply m s3 \<noteq> Inl NotDivisible"
    by (auto simp: PAGN_apply_def scale_shift_def split: sum.splits dest: cond_op_error)
  show "all_gather_stat cs \<noteq> Inl NotDivisible"
    by (simp add: all_gather_stat_def)
qed

lemma all_ranks_map_no_error:
  assumes "\<And>x. f x \<noteq> Inl e"
  shows "all_ranks (map f xs) \<noteq> Inl e"
proof
  assume "all_ranks (map f xs) = Inl e"
  then have "Inl e \<in> set (map f xs)" by (rule all_ranks_error)
  then obtain x where "f x = Inl e" by (auto simp: image_iff)
  with assms show False by blast
qed

lemma all_ranks_map2_no_error:
  assumes "\<And>x y. f x y \<noteq> Inl e"
  shows "all_ranks (map2 f xs ys) \<noteq> Inl e"
proof
  assume "all_ranks (map2 f xs ys) = Inl e"
  then have "Inl e \<in> set (map2 f xs ys)" by (rule all_ranks_error)
  then obtain x y where "f x y = Inl e" by (auto simp: image_iff)
  with assms show False by blast
qed

lemma PatchAdaGroupNorm_forward_not_NotDivisible:
  "snd (PatchAdaGroupNorm_forward m inputs) \<noteq> Inl NotDivisible"
  using all_ranks_map_no_error[of "PAGN_cond m" NotDivisible, OF PAGN_stage_errors(1)]
    all_ranks_map2_no_error[of "PAGN_sums m" NotDivisible, OF PAGN_stage_errors(2)]
    all_ranks_map2_no_error[of "PAGN_mean m" NotDivisible, OF PAGN_stage_errors(3)]
    all_ranks_map2_no_error[of "PAGN_var" NotDivisible, OF PAGN_stage_errors(4)]
    all_ranks_map_no_error[of "PAGN_apply m" NotDivisible, OF PAGN_stage_errors(5)]
    PAGN_stage_errors(6)
  by (auto simp: PatchAdaGroupNorm_forward_def PAGN_moments_def bind_run_def post_def
        local_step_def split: sum.splits prod.splits)

section \<open>The channel count and the outcome of PatchAdaGroupNorm\<close>


















lemma three_group_ok:
  "shards_ok three_group_layer 1 3 [channel_shard 9 1 3]" "affine_ok three_group_layer"
  by (simp_all add: shards_ok_def affine_ok_def three_group_layer_def channel_shard_def)

text \<open>
  By contrast the outcome of \<^verbatim>\<open>PatchGroupNorm.forward\<close> does depend on the channel
  count: with three groups a shard of nine channels is normalised, and the same shard
  with ten channels is rejected by the \<^verbatim>\<open>view\<close> of line 155.
\<close>

lemma PatchGroupNorm_outcome_depends_on_channels:
  "outcome (PatchGroupNorm_forward three_group_layer [channel_shard 10 1 3])
     = ([Gather_height], Inl ViewError)"
  "outcome (PatchGroupNorm_forward three_group_layer [channel_shard 9 1 3])
     = ([Gather_height, Gather_partial_sum, Gather_partial_var], Inr ())"
proof -
  show "outcome (PatchGroupNorm_forward three_group_layer [channel_shard 10 1 3])
     = ([Gather_height], Inl ViewError)"
    by (simp add: outcome_def PatchGroupNorm_forward_def PGN_moments_def bind_run_def post_def
          local_step_def all_gather_def PGN_sums_def Let_def view5_def three_group_layer_def
          channel_shard_def)
  show "outcome (PatchGroupNorm_forward three_group_layer [channel_shard 9 1 3])
     = ([Gather_height, Gather_partial_sum, Gather_partial_var], Inr ())"
    unfolding outcome_def PatchGroupNorm_forward_ok[OF three_group_ok] by simp
qed



end
